theory Spec2Isabelle
  imports Complex_Main
begin

section \<open>Numbers of the calculator\<close>

text \<open>
  Every value the calculator computes with is a JavaScript \<open>number\<close>.  The model keeps
  the four kinds of value that the code distinguishes (a finite number, the two
  infinities and NaN) and computes on finite numbers with exact real arithmetic:
  rounding and overflow of the 64-bit format are outside the model, and the two zeros
  are one (a division by zero takes the zero as positive, which is the zero that
  \<open>Math.pow(0, n)\<close> produces for positive \<open>n\<close>).  Overflow is added in the section
  on numbers that overflow, where \<open>annuityFactor\<close>, \<open>solveFV\<close> and \<open>solvePV\<close> are
  given a second time over operations that produce an infinity where the format does.
\<close>

datatype jsnum = Fin real | PInf | NInf | NaN

fun jadd :: "jsnum \<Rightarrow> jsnum \<Rightarrow> jsnum" where
  "jadd (Fin a) (Fin b) = Fin (a + b)"
| "jadd NaN y = NaN"
| "jadd x NaN = NaN"
| "jadd PInf NInf = NaN"
| "jadd NInf PInf = NaN"
| "jadd PInf y = PInf"
| "jadd x PInf = PInf"
| "jadd NInf y = NInf"
| "jadd x NInf = NInf"

fun jneg :: "jsnum \<Rightarrow> jsnum" where
  "jneg (Fin a) = Fin (- a)"
| "jneg PInf = NInf"
| "jneg NInf = PInf"
| "jneg NaN = NaN"

definition jsub :: "jsnum \<Rightarrow> jsnum \<Rightarrow> jsnum" where
  "jsub x y = jadd x (jneg y)"

fun jmul :: "jsnum \<Rightarrow> jsnum \<Rightarrow> jsnum" where
  "jmul (Fin a) (Fin b) = Fin (a * b)"
| "jmul NaN y = NaN"
| "jmul x NaN = NaN"
| "jmul (Fin a) PInf = (if a = 0 then NaN else if 0 < a then PInf else NInf)"
| "jmul (Fin a) NInf = (if a = 0 then NaN else if 0 < a then NInf else PInf)"
| "jmul PInf (Fin b) = (if b = 0 then NaN else if 0 < b then PInf else NInf)"
| "jmul NInf (Fin b) = (if b = 0 then NaN else if 0 < b then NInf else PInf)"
| "jmul PInf PInf = PInf"
| "jmul PInf NInf = NInf"
| "jmul NInf PInf = NInf"
| "jmul NInf NInf = PInf"

fun jdiv :: "jsnum \<Rightarrow> jsnum \<Rightarrow> jsnum" where
  "jdiv (Fin a) (Fin b) =
     (if b \<noteq> 0 then Fin (a / b)
      else if a = 0 then NaN else if 0 < a then PInf else NInf)"
| "jdiv NaN y = NaN"
| "jdiv x NaN = NaN"
| "jdiv (Fin a) PInf = Fin 0"
| "jdiv (Fin a) NInf = Fin 0"
| "jdiv PInf (Fin b) = (if 0 \<le> b then PInf else NInf)"
| "jdiv NInf (Fin b) = (if 0 \<le> b then NInf else PInf)"
| "jdiv PInf PInf = NaN"
| "jdiv PInf NInf = NaN"
| "jdiv NInf PInf = NaN"
| "jdiv NInf NInf = NaN"

fun jabs :: "jsnum \<Rightarrow> jsnum" where
  "jabs (Fin a) = Fin \<bar>a\<bar>"
| "jabs PInf = PInf"
| "jabs NInf = PInf"
| "jabs NaN = NaN"

text \<open>Comparisons: every comparison with NaN is false.\<close>

fun jlt :: "jsnum \<Rightarrow> jsnum \<Rightarrow> bool" where
  "jlt (Fin a) (Fin b) = (a < b)"
| "jlt NaN y = False"
| "jlt x NaN = False"
| "jlt PInf y = False"
| "jlt x NInf = False"
| "jlt NInf y = True"
| "jlt (Fin a) PInf = True"

fun jle :: "jsnum \<Rightarrow> jsnum \<Rightarrow> bool" where
  "jle (Fin a) (Fin b) = (a \<le> b)"
| "jle NaN y = False"
| "jle x NaN = False"
| "jle NInf y = True"
| "jle x PInf = True"
| "jle PInf y = False"
| "jle (Fin a) NInf = False"

definition jgt :: "jsnum \<Rightarrow> jsnum \<Rightarrow> bool" where
  "jgt x y = jlt y x"

definition jge :: "jsnum \<Rightarrow> jsnum \<Rightarrow> bool" where
  "jge x y = jle y x"

text \<open>Strict equality \<open>===\<close> of two numbers: NaN is not equal to itself.\<close>

definition jeq :: "jsnum \<Rightarrow> jsnum \<Rightarrow> bool" where
  "jeq x y = (x \<noteq> NaN \<and> x = y)"

fun isFinite :: "jsnum \<Rightarrow> bool" where
  "isFinite (Fin a) = True"
| "isFinite x = False"

definition isNaN :: "jsnum \<Rightarrow> bool" where
  "isNaN x = (x = NaN)"

text \<open>
  \<open>Math.pow\<close>: the exponent zero gives 1 for every base; a negative base has a power
  only at a whole exponent; zero to a negative power is infinite.
\<close>

fun pow :: "jsnum \<Rightarrow> jsnum \<Rightarrow> jsnum" where
  "pow (Fin x) (Fin y) =
     (if y = 0 then Fin 1
      else if 0 < x then Fin (x powr y)
      else if x = 0 then (if 0 < y then Fin 0 else PInf)
      else if y \<in> \<int> then Fin (x powi \<lfloor>y\<rfloor>)
      else NaN)"
| "pow x NaN = NaN"
| "pow NaN (Fin y) = (if y = 0 then Fin 1 else NaN)"
| "pow NaN y = NaN"
| "pow (Fin x) PInf = (if 1 < \<bar>x\<bar> then PInf else if \<bar>x\<bar> = 1 then NaN else Fin 0)"
| "pow (Fin x) NInf = (if 1 < \<bar>x\<bar> then Fin 0 else if \<bar>x\<bar> = 1 then NaN else PInf)"
| "pow PInf (Fin y) = (if y = 0 then Fin 1 else if 0 < y then PInf else Fin 0)"
| "pow PInf PInf = PInf"
| "pow PInf NInf = Fin 0"
| "pow NInf (Fin y) =
     (if y = 0 then Fin 1
      else if 0 < y then (if y \<in> \<int> \<and> odd \<lfloor>y\<rfloor> then NInf else PInf)
      else Fin 0)"
| "pow NInf PInf = PInf"
| "pow NInf NInf = Fin 0"

text \<open>\<open>Math.log\<close> and \<open>Math.floor\<close>.\<close>

fun log_js :: "jsnum \<Rightarrow> jsnum" where
  "log_js (Fin x) = (if 0 < x then Fin (ln x) else if x = 0 then NInf else NaN)"
| "log_js PInf = PInf"
| "log_js NInf = NaN"
| "log_js NaN = NaN"

fun floor_js :: "jsnum \<Rightarrow> jsnum" where
  "floor_js (Fin x) = Fin (of_int \<lfloor>x\<rfloor>)"
| "floor_js x = x"

section \<open>TVM math\<close>

text \<open>\<open>getPeriodicRate\<close>: the nominal annual rate in percent to the rate of a payment period.\<close>

definition getPeriodicRate :: "jsnum \<Rightarrow> jsnum \<Rightarrow> jsnum \<Rightarrow> jsnum" where
  "getPeriodicRate nominalRate cy py =
     (let r = jdiv nominalRate (Fin 100)
      in if jeq cy py then jdiv r py
         else jsub (pow (jadd (Fin 1) (jdiv r cy)) (jdiv cy py)) (Fin 1))"

definition annuityFactor :: "jsnum \<Rightarrow> jsnum \<Rightarrow> bool \<Rightarrow> jsnum" where
  "annuityFactor i n isBegin =
     (if jlt (jabs i) (Fin (1 / 10 ^ 10)) then n
      else let factor = jdiv (jsub (pow (jadd (Fin 1) i) n) (Fin 1)) i
           in if isBegin then jmul factor (jadd (Fin 1) i) else factor)"

definition presentValueFactor :: "jsnum \<Rightarrow> jsnum \<Rightarrow> jsnum" where
  "presentValueFactor i n = pow (jadd (Fin 1) i) (jneg n)"

definition solveFV :: "jsnum \<Rightarrow> jsnum \<Rightarrow> jsnum \<Rightarrow> jsnum \<Rightarrow> bool \<Rightarrow> jsnum" where
  "solveFV n i pv pmt isBegin =
     (let pvf = pow (jadd (Fin 1) i) n;
          af = annuityFactor i n isBegin
      in jneg (jadd (jmul pv pvf) (jmul pmt af)))"

definition solvePV :: "jsnum \<Rightarrow> jsnum \<Rightarrow> jsnum \<Rightarrow> jsnum \<Rightarrow> bool \<Rightarrow> jsnum" where
  "solvePV n i pmt fv isBegin =
     (let fvf = pow (jadd (Fin 1) i) n;
          af = annuityFactor i n isBegin
      in jdiv (jneg (jadd (jmul pmt af) fv)) fvf)"

definition solvePMT :: "jsnum \<Rightarrow> jsnum \<Rightarrow> jsnum \<Rightarrow> jsnum \<Rightarrow> bool \<Rightarrow> jsnum" where
  "solvePMT n i pv fv isBegin =
     (let fvf = pow (jadd (Fin 1) i) n;
          af = annuityFactor i n isBegin
      in if jlt (jabs af) (Fin (1 / 10 ^ 15)) then NaN
         else jdiv (jneg (jadd (jmul pv fvf) fv)) af)"

text \<open>
  \<open>solveNNumeric\<close>: bisection for N.  \<open>solveNNumeric_f\<close> is the closure \<open>f\<close> of the source;
  \<open>solveNNumeric_probe\<close> is the loop over \<open>test = 1, 10, 100, 1000, 10000\<close> that looks for
  an upper bound; \<open>solveNNumeric_loop\<close> is the bisection loop, its first argument the
  number of iterations left.
\<close>

definition solveNNumeric_f ::
  "jsnum \<Rightarrow> jsnum \<Rightarrow> jsnum \<Rightarrow> jsnum \<Rightarrow> bool \<Rightarrow> jsnum \<Rightarrow> jsnum" where
  "solveNNumeric_f i pv pmt fv isBegin n =
     (if jle n (Fin 0) then jadd pv fv
      else let fvf = pow (jadd (Fin 1) i) n
           in jadd (jadd (jmul pv fvf) (jmul pmt (annuityFactor i n isBegin))) fv)"

fun solveNNumeric_probe :: "(jsnum \<Rightarrow> jsnum) \<Rightarrow> jsnum \<Rightarrow> jsnum list \<Rightarrow> jsnum \<Rightarrow> jsnum" where
  "solveNNumeric_probe f fLo [] hi = hi"
| "solveNNumeric_probe f fLo (test # tests) hi =
     (if jlt (jmul (f test) fLo) (Fin 0) then test
      else solveNNumeric_probe f fLo tests hi)"

fun solveNNumeric_loop :: "nat \<Rightarrow> (jsnum \<Rightarrow> jsnum) \<Rightarrow> jsnum \<Rightarrow> jsnum \<Rightarrow> jsnum" where
  "solveNNumeric_loop 0 f lo hi = jdiv (jadd lo hi) (Fin 2)"
| "solveNNumeric_loop (Suc k) f lo hi =
     (let mid = jdiv (jadd lo hi) (Fin 2);
          fMid = f mid
      in if jlt (jabs fMid) (Fin (1 / 10 ^ 10)) then mid
         else if jlt (jmul (f lo) fMid) (Fin 0) then solveNNumeric_loop k f lo mid
         else solveNNumeric_loop k f mid hi)"

definition solveNNumeric :: "jsnum \<Rightarrow> jsnum \<Rightarrow> jsnum \<Rightarrow> jsnum \<Rightarrow> bool \<Rightarrow> jsnum" where
  "solveNNumeric i pv pmt fv isBegin =
     (let f = solveNNumeric_f i pv pmt fv isBegin;
          lo = Fin (1 / 100);
          hi = Fin 1000;
          fLo = f lo;
          fHi = f hi;
          hi = (if jgt (jmul fLo fHi) (Fin 0)
                then solveNNumeric_probe f fLo [Fin 1, Fin 10, Fin 100, Fin 1000, Fin 10000] hi
                else hi)
      in solveNNumeric_loop 100 f lo hi)"

definition solveN :: "jsnum \<Rightarrow> jsnum \<Rightarrow> jsnum \<Rightarrow> jsnum \<Rightarrow> bool \<Rightarrow> jsnum" where
  "solveN i pv pmt fv isBegin =
     (if jlt (jabs i) (Fin (1 / 10 ^ 10))
      then (if jlt (jabs pmt) (Fin (1 / 10 ^ 15)) then NaN
            else jdiv (jneg (jadd pv fv)) pmt)
      else if jlt (jabs pmt) (Fin (1 / 10 ^ 15))
      then (if jlt (jabs pv) (Fin (1 / 10 ^ 15)) then NaN
            else let ratio = jdiv (jneg fv) pv
                 in if jle ratio (Fin 0) then NaN
                    else jdiv (log_js ratio) (log_js (jadd (Fin 1) i)))
      else solveNNumeric i pv pmt fv isBegin)"

text \<open>
  \<open>bisectionSolveI\<close>: the bisection that \<open>solveIY\<close> falls back to.  A bracket is
  \<open>(lo, hi, fLo, fHi)\<close>; \<open>bisectionSolveI_probe\<close> is the loop over the candidate list, which
  stops at the first candidate that gives a sign change.
\<close>

type_synonym bracket = "jsnum \<times> jsnum \<times> jsnum \<times> jsnum"

fun bisectionSolveI_probe :: "(jsnum \<Rightarrow> jsnum) \<Rightarrow> jsnum list \<Rightarrow> bracket \<Rightarrow> bracket" where
  "bisectionSolveI_probe f [] b = b"
| "bisectionSolveI_probe f (test # tests) (lo, hi, fLo, fHi) =
     (if jgt test lo \<and> jlt test hi \<and> jlt (jmul (f test) fLo) (Fin 0)
      then (lo, test, fLo, f test)
      else if jgt test lo \<and> jlt test hi \<and> jlt (jmul (f test) fHi) (Fin 0)
      then (test, hi, f test, fHi)
      else bisectionSolveI_probe f tests (lo, hi, fLo, fHi))"

fun bisectionSolveI_loop :: "nat \<Rightarrow> (jsnum \<Rightarrow> jsnum) \<Rightarrow> bracket \<Rightarrow> jsnum" where
  "bisectionSolveI_loop 0 f (lo, hi, fLo, fHi) = jdiv (jadd lo hi) (Fin 2)"
| "bisectionSolveI_loop (Suc k) f (lo, hi, fLo, fHi) =
     (let mid = jdiv (jadd lo hi) (Fin 2);
          fMid = f mid
      in if jlt (jabs fMid) (Fin (1 / 10 ^ 10)) then mid
         else if jlt (jmul fLo fMid) (Fin 0) then bisectionSolveI_loop k f (lo, mid, fLo, fMid)
         else bisectionSolveI_loop k f (mid, hi, fMid, fHi))"

definition bisectionSolveI :: "(jsnum \<Rightarrow> jsnum) \<Rightarrow> jsnum \<Rightarrow> jsnum \<Rightarrow> nat \<Rightarrow> jsnum" where
  "bisectionSolveI f lo hi maxIter =
     (let fLo = f lo;
          fHi = f hi;
          b = (if jgt (jmul fLo fHi) (Fin 0)
               then bisectionSolveI_probe f
                      [Fin (- (1 / 2)), Fin 0, Fin (1 / 100), Fin (1 / 10), Fin (1 / 2), Fin 1,
                       Fin (3 / 2)]
                      (lo, hi, fLo, fHi)
               else (lo, hi, fLo, fHi))
      in bisectionSolveI_loop maxIter f b)"

text \<open>
  \<open>solveIY\<close>: Newton-Raphson from 5 percent, then the bisection when the best iterate has
  a residual above \<open>1e-6\<close>.  \<open>solveIY_f\<close> and \<open>solveIY_df\<close> are the closures \<open>f\<close> and \<open>df\<close>;
  \<open>solveIY_newton\<close> is the loop, with the iterations left, the iterate \<open>i\<close> and the best
  iterate and residual so far, and returns \<open>bestI\<close> as the loop leaves it.
\<close>

definition solveIY_f ::
  "jsnum \<Rightarrow> jsnum \<Rightarrow> jsnum \<Rightarrow> jsnum \<Rightarrow> bool \<Rightarrow> jsnum \<Rightarrow> jsnum" where
  "solveIY_f n pv pmt fv isBegin i =
     (let fvf = pow (jadd (Fin 1) i) n;
          af = annuityFactor i n isBegin
      in jadd (jadd (jmul pv fvf) (jmul pmt af)) fv)"

definition solveIY_df ::
  "jsnum \<Rightarrow> jsnum \<Rightarrow> jsnum \<Rightarrow> bool \<Rightarrow> jsnum \<Rightarrow> jsnum" where
  "solveIY_df n pv pmt isBegin i =
     (if jlt (jabs i) (Fin (1 / 10 ^ 10))
      then jadd (jmul pv n) (jdiv (jmul (jmul pmt n) (jadd n (Fin 1))) (Fin 2))
      else let onePlusI = jadd (Fin 1) i;
               onePlusIN = pow onePlusI n;
               dFvf = jmul n (pow onePlusI (jsub n (Fin 1)));
               af = jdiv (jsub onePlusIN (Fin 1)) i;
               dAf = jdiv (jsub (jmul (jmul n (pow onePlusI (jsub n (Fin 1)))) i)
                                (jsub onePlusIN (Fin 1)))
                          (jmul i i);
               dAfBgn = (if isBegin then jadd (jmul dAf onePlusI) af else dAf)
           in jadd (jmul pv dFvf) (jmul pmt dAfBgn))"

fun solveIY_newton ::
  "nat \<Rightarrow> (jsnum \<Rightarrow> jsnum) \<Rightarrow> (jsnum \<Rightarrow> jsnum) \<Rightarrow> jsnum \<Rightarrow> jsnum \<Rightarrow> jsnum \<Rightarrow> jsnum" where
  "solveIY_newton 0 f df i bestI bestF = bestI"
| "solveIY_newton (Suc k) f df i bestI bestF =
     (let fVal = f i
      in if jlt (jabs fVal) (Fin (1 / 10 ^ 10)) then i
         else let better = jlt (jabs fVal) bestF;
                  bestF = (if better then jabs fVal else bestF);
                  bestI = (if better then i else bestI);
                  dfVal = df i
              in if jlt (jabs dfVal) (Fin (1 / 10 ^ 15)) then bestI
                 else let newI = jsub i (jdiv fVal dfVal);
                          newI = (if jle newI (Fin (- (99 / 100))) then jdiv i (Fin 2) else newI);
                          newI = (if jgt newI (Fin 10) then jdiv (jadd i (Fin 10)) (Fin 2)
                                  else newI)
                      in if jlt (jabs (jsub newI i)) (Fin (1 / 10 ^ 12)) then newI
                         else solveIY_newton k f df newI bestI bestF)"

definition solveIY ::
  "jsnum \<Rightarrow> jsnum \<Rightarrow> jsnum \<Rightarrow> jsnum \<Rightarrow> bool \<Rightarrow> jsnum \<Rightarrow> jsnum \<Rightarrow> jsnum" where
  "solveIY n pv pmt fv isBegin cy py =
     (let f = solveIY_f n pv pmt fv isBegin;
          df = solveIY_df n pv pmt isBegin;
          i = Fin (5 / 100);
          bestI = solveIY_newton 50 f df i i (jabs (f i));
          bestI = (if jgt (jabs (f bestI)) (Fin (1 / 10 ^ 6))
                   then bisectionSolveI f (Fin (- (99 / 100))) (Fin 2) 100
                   else bestI);
          nominalRate = (if jeq cy py then jmul bestI py
                         else jmul cy (jsub (pow (jadd (Fin 1) bestI) (jdiv py cy)) (Fin 1)))
      in jmul nominalRate (Fin 100))"

text \<open>
  \<open>bisectionIRR\<close>: the bisection that \<open>calculateIRR\<close> falls back to; same shape as
  \<open>bisectionSolveI\<close>, with its own candidate list and its own tests.
\<close>

fun bisectionIRR_probe :: "(jsnum \<Rightarrow> jsnum) \<Rightarrow> jsnum list \<Rightarrow> bracket \<Rightarrow> bracket" where
  "bisectionIRR_probe f [] b = b"
| "bisectionIRR_probe f (test # tests) (lo, hi, fLo, fHi) =
     (if jlt (jmul (f test) fLo) (Fin 0) then (lo, test, fLo, f test)
      else if jlt (jmul (f test) fHi) (Fin 0) then (test, hi, f test, fHi)
      else bisectionIRR_probe f tests (lo, hi, fLo, fHi))"

fun bisectionIRR_loop :: "nat \<Rightarrow> (jsnum \<Rightarrow> jsnum) \<Rightarrow> bracket \<Rightarrow> jsnum" where
  "bisectionIRR_loop 0 f (lo, hi, fLo, fHi) = jdiv (jadd lo hi) (Fin 2)"
| "bisectionIRR_loop (Suc k) f (lo, hi, fLo, fHi) =
     (let mid = jdiv (jadd lo hi) (Fin 2);
          fMid = f mid
      in if jlt (jabs fMid) (Fin (1 / 10 ^ 10)) then mid
         else if jlt (jmul fLo fMid) (Fin 0) then bisectionIRR_loop k f (lo, mid, fLo, fMid)
         else bisectionIRR_loop k f (mid, hi, fMid, fHi))"

definition bisectionIRR :: "(jsnum \<Rightarrow> jsnum) \<Rightarrow> jsnum \<Rightarrow> jsnum \<Rightarrow> nat \<Rightarrow> jsnum" where
  "bisectionIRR f lo hi maxIter =
     (let fLo = f lo;
          fHi = f hi;
          b = (if jgt (jmul fLo fHi) (Fin 0)
               then bisectionIRR_probe f
                      [Fin (- (1 / 2)), Fin 0, Fin (1 / 100), Fin (1 / 10), Fin (1 / 2), Fin 1]
                      (lo, hi, fLo, fHi)
               else (lo, hi, fLo, fHi))
      in bisectionIRR_loop maxIter f b)"

text \<open>
  \<open>calculateIRR_npvFunc\<close> is the objective function \<open>npvFunc\<close> that \<open>calculateIRR\<close> builds
  from the cash flows and hands to its Newton loop and to \<open>bisectionIRR\<close>;
  \<open>calculateIRR_npvFunc_loop\<close> is its summation loop.
\<close>

function calculateIRR_npvFunc_loop :: "jsnum list \<Rightarrow> jsnum \<Rightarrow> nat \<Rightarrow> jsnum \<Rightarrow> jsnum" where
  "calculateIRR_npvFunc_loop cfs r t npv =
     (if t < length cfs
      then calculateIRR_npvFunc_loop cfs r (Suc t)
             (jadd npv (jdiv (cfs ! t) (pow (jadd (Fin 1) r) (Fin (real t)))))
      else npv)"
  by pat_completeness auto
termination
  by (relation "measure (\<lambda>(cfs, r, t, npv). length cfs - t)") auto

definition calculateIRR_npvFunc :: "jsnum list \<Rightarrow> jsnum \<Rightarrow> jsnum" where
  "calculateIRR_npvFunc cfs r = calculateIRR_npvFunc_loop cfs r 0 (Fin 0)"

section \<open>The solvers of FV and PV on numbers that overflow\<close>

text \<open>
  The 64-bit format has a largest finite number, \<open>2^1024 - 2^971\<close>
  (\<open>Number.MAX_VALUE\<close>).  An operation whose result, rounded to the nearest number of
  the format, would lie beyond it gives the infinity of the result's sign: this is every
  result of magnitude \<open>2^1024 - 2^970\<close> or more, the point half way between the largest
  number and \<open>2^1024\<close>.  \<open>ovf\<close> does this to the result of an operation, and
  \<open>jadd_ovf\<close>, \<open>jsub_ovf\<close>, \<open>jmul_ovf\<close>, \<open>jdiv_ovf\<close> and \<open>pow_ovf\<close> are \<open>+\<close>, \<open>-\<close>, \<open>*\<close>,
  \<open>/\<close> and \<open>Math.pow\<close> with it.  Below that bound the operations are still exact:
  rounding, and underflow to zero, stay outside the model.
\<close>

definition overflowBound :: real where
  "overflowBound = 2 ^ 1024 - 2 ^ 970"

fun ovf :: "jsnum \<Rightarrow> jsnum" where
  "ovf (Fin x) =
     (if overflowBound \<le> x then PInf else if x \<le> - overflowBound then NInf else Fin x)"
| "ovf x = x"

definition jadd_ovf :: "jsnum \<Rightarrow> jsnum \<Rightarrow> jsnum" where
  "jadd_ovf x y = ovf (jadd x y)"



definition jdiv_ovf :: "jsnum \<Rightarrow> jsnum \<Rightarrow> jsnum" where
  "jdiv_ovf x y = ovf (jdiv x y)"





section \<open>The calculator's state\<close>

text \<open>
  The shared \<open>state\<close> object, with the fields that the functions below read or write.
  A TVM register holds \<open>null\<close> (\<open>None\<close>) or a number.  The two period numbers of the
  amortization range only ever receive whole numbers (1, a neighbour of the other one, or
  a floored entry between 1 and \<open>floor(N)\<close>), so they are integers here.  The message
  area of the page is the field \<open>message\<close>: the text shown and its kind; the timer that
  empties it after three seconds, and the redrawing of the page (\<open>updateDisplay\<close> and the
  other functions that only write to the document), are outside the model.
\<close>

record amortResult =
  principal :: jsnum
  interest :: jsnum
  balance :: jsnum

record state =
  N :: "jsnum option"
  IY :: "jsnum option"
  PV :: "jsnum option"
  PMT :: "jsnum option"
  FV :: "jsnum option"
  CY :: jsnum
  PY :: jsnum
  BGN :: bool
  entry :: string
  isNewEntry :: bool
  selectedVar :: "string option"
  lastComputed :: "jsnum option"
  lastComputedVar :: "string option"
  rclMode :: bool
  mode :: string
  cashFlows :: "jsnum list"
  amortP1 :: int
  amortP2 :: int
  amortResults :: "amortResult option"
  message :: "(string \<times> string) option"

text \<open>
  What the code takes from the JavaScript host: the digits that \<open>formatNumber\<close> prints
  (through \<open>toFixed\<close>, \<open>toLocaleString\<close> and \<open>toExponential\<close>), \<open>parseFloat\<close>, and the
  conversion of a number inside a template string.  They are parameters of the model.
\<close>

record host =
  formatNumber :: "jsnum \<Rightarrow> string"
  parseFloat :: "string \<Rightarrow> jsnum"
  numToString :: "jsnum \<Rightarrow> string"

text \<open>The state the page starts in: the literal of the source, with an empty message area.\<close>

definition initialState :: state where
  "initialState =
     \<lparr>N = None, IY = None, PV = None, PMT = None, FV = None,
      CY = Fin 12, PY = Fin 12, BGN = False,
      entry = ''0'', isNewEntry = True, selectedVar = None,
      lastComputed = None, lastComputedVar = None, rclMode = False,
      mode = ''tvm'', cashFlows = [Fin 0],
      amortP1 = 1, amortP2 = 1, amortResults = None, message = None\<rparr>"

definition showMessage :: "string \<Rightarrow> string \<Rightarrow> state \<Rightarrow> state" where
  "showMessage msg type s = s\<lparr>message := Some (msg, type)\<rparr>"

definition clearMessage :: "state \<Rightarrow> state" where
  "clearMessage s = s\<lparr>message := None\<rparr>"

text \<open>\<open>parseFloat(state.entry) || 0\<close>: NaN and zero both give zero.\<close>

definition getEntryValue :: "host \<Rightarrow> state \<Rightarrow> jsnum" where
  "getEntryValue h s =
     (let v = parseFloat h (entry s) in if v = NaN \<or> v = Fin 0 then Fin 0 else v)"

text \<open>\<open>.replace(/,/g, '')\<close>\<close>

definition stripCommas :: "string \<Rightarrow> string" where
  "stripCommas str = filter (\<lambda>c. c \<noteq> CHR '','') str"

text \<open>
  \<open>state[v]\<close> for the name of a TVM register, and the assignment to it.  \<open>num\<close> is the
  number that arithmetic makes of a register: \<open>null\<close> counts as zero.
\<close>

definition tvmVars :: "string list" where
  "tvmVars = [''N'', ''IY'', ''PV'', ''PMT'', ''FV'']"

definition getReg :: "state \<Rightarrow> string \<Rightarrow> jsnum option" where
  "getReg s v =
     (if v = ''N'' then N s else if v = ''IY'' then IY s else if v = ''PV'' then PV s
      else if v = ''PMT'' then PMT s else if v = ''FV'' then FV s else None)"

definition setReg :: "string \<Rightarrow> jsnum \<Rightarrow> state \<Rightarrow> state" where
  "setReg v x s =
     (if v = ''N'' then s\<lparr>N := Some x\<rparr> else if v = ''IY'' then s\<lparr>IY := Some x\<rparr>
      else if v = ''PV'' then s\<lparr>PV := Some x\<rparr> else if v = ''PMT'' then s\<lparr>PMT := Some x\<rparr>
      else if v = ''FV'' then s\<lparr>FV := Some x\<rparr> else s)"

fun num :: "jsnum option \<Rightarrow> jsnum" where
  "num None = Fin 0"
| "num (Some x) = x"

section \<open>CPT\<close>

text \<open>
  \<open>compute_solve\<close> is the \<open>switch\<close> of \<open>compute\<close>: the solver of the blank register on the
  other registers.  A name outside the five leaves \<open>result\<close> undefined, which the test
  after the switch reads as NaN.
\<close>

definition compute_solve :: "string \<Rightarrow> state \<Rightarrow> jsnum" where
  "compute_solve solveFor s =
     (let n = num (N s); iy = num (IY s); pv = num (PV s); pmt = num (PMT s); fv = num (FV s);
          cy = CY s; py = PY s; isBegin = BGN s
      in if solveFor = ''FV'' then solveFV n (getPeriodicRate iy cy py) pv pmt isBegin
         else if solveFor = ''PV'' then solvePV n (getPeriodicRate iy cy py) pmt fv isBegin
         else if solveFor = ''PMT'' then solvePMT n (getPeriodicRate iy cy py) pv fv isBegin
         else if solveFor = ''N'' then solveN (getPeriodicRate iy cy py) pv pmt fv isBegin
         else if solveFor = ''IY'' then solveIY n pv pmt fv isBegin cy py
         else NaN)"

definition compute :: "host \<Rightarrow> state \<Rightarrow> state" where
  "compute h s0 =
     (let s = (clearMessage s0)\<lparr>rclMode := False\<rparr>;
          blankVars = filter (\<lambda>v. getReg s v = None) tvmVars
      in if length blankVars = 0
         then showMessage ''All values set - clear one to compute'' ''info'' s
         else if length blankVars > 1
         then showMessage ''SET MORE VALUES'' ''error'' s
         else let solveFor = hd blankVars;
                  result = compute_solve solveFor s
              in if \<not> isFinite result \<or> isNaN result
                 then showMessage ''No solution found'' ''error'' s
                 else showMessage
                        ((if solveFor = ''IY'' then ''I/Y'' else solveFor) @ '' = ''
                           @ formatNumber h result)
                        ''success''
                        ((setReg solveFor result s)
                           \<lparr>entry := stripCommas (formatNumber h result),
                            isNewEntry := True,
                            selectedVar := Some solveFor,
                            lastComputed := Some result,
                            lastComputedVar := Some solveFor\<rparr>))"

section \<open>NPV\<close>

text \<open>\<open>calculateNPV_loop\<close> is the summation loop, from index \<open>t\<close> on, with the sum so far.\<close>

function calculateNPV_loop :: "jsnum list \<Rightarrow> jsnum \<Rightarrow> nat \<Rightarrow> jsnum \<Rightarrow> jsnum" where
  "calculateNPV_loop cfs periodicRate t npv =
     (if t < length cfs
      then calculateNPV_loop cfs periodicRate (Suc t)
             (jadd npv (jdiv (cfs ! t) (pow (jadd (Fin 1) periodicRate) (Fin (real t)))))
      else npv)"
  by pat_completeness auto
termination
  by (relation "measure (\<lambda>(cfs, periodicRate, t, npv). length cfs - t)") auto

definition calculateNPV :: "host \<Rightarrow> state \<Rightarrow> state" where
  "calculateNPV h s =
     (if length (cashFlows s) < 2
      then showMessage ''Enter at least 2 cash flows'' ''error'' s
      else if IY s = None \<and> \<not> (\<not> isNewEntry s \<and> entry s \<noteq> ''0'')
      then showMessage ''Set I/Y first (discount rate)'' ''error'' s
      else let rate = (case IY s of Some r \<Rightarrow> r | None \<Rightarrow> getEntryValue h s);
               s1 = s\<lparr>IY := Some rate\<rparr>;
               periodicRate = jdiv (jdiv rate (Fin 100)) (PY s1);
               npv = calculateNPV_loop (cashFlows s1) periodicRate 0 (Fin 0)
           in (showMessage (''NPV = '' @ formatNumber h npv) ''success''
                 (s1\<lparr>lastComputed := Some npv,
                     entry := stripCommas (formatNumber h npv),
                     isNewEntry := True\<rparr>))
              \<lparr>mode := ''tvm''\<rparr>)"

section \<open>Amortization\<close>

text \<open>
  \<open>calculateAmort_loop\<close> is the loop over the periods, from \<open>period\<close> to \<open>amortP2\<close>, on
  \<open>(balance, totalPrincipal, totalInterest)\<close>; the running balance is \<open>bal\<close>.
\<close>

function calculateAmort_loop ::
  "bool \<Rightarrow> jsnum \<Rightarrow> jsnum \<Rightarrow> int \<Rightarrow> int \<Rightarrow> int \<Rightarrow> jsnum \<times> jsnum \<times> jsnum
     \<Rightarrow> jsnum \<times> jsnum \<times> jsnum" where
  "calculateAmort_loop isBegin i pmt p1 p2 period (bal, totalPrincipal, totalInterest) =
     (if period \<le> p2
      then let (interestPayment, principalPayment, bal) =
                 (if isBegin
                  then let principalPayment = jneg pmt;
                           bal = jadd bal principalPayment;
                           interestPayment = jmul bal i;
                           bal = jadd bal interestPayment
                       in (interestPayment, principalPayment, bal)
                  else let interestPayment = jmul bal i;
                           principalPayment = jsub (jneg pmt) interestPayment;
                           bal = jadd bal (jadd interestPayment pmt)
                       in (interestPayment, principalPayment, bal))
           in calculateAmort_loop isBegin i pmt p1 p2 (period + 1)
                (if period \<ge> p1
                 then (bal, jadd totalPrincipal principalPayment,
                       jadd totalInterest interestPayment)
                 else (bal, totalPrincipal, totalInterest))
      else (bal, totalPrincipal, totalInterest))"
  by pat_completeness auto
termination
  by (relation "measure (\<lambda>(isBegin, i, pmt, p1, p2, period, acc). nat (p2 + 1 - period))") auto

definition calculateAmort :: "host \<Rightarrow> state \<Rightarrow> state" where
  "calculateAmort h s =
     (if N s = None \<or> IY s = None \<or> PV s = None \<or> PMT s = None
      then s\<lparr>amortResults := None\<rparr>
      else let pv = num (PV s);
               pmt = num (PMT s);
               i = getPeriodicRate (num (IY s)) (CY s) (PY s);
               isBegin = BGN s;
               (bal, totalPrincipal, totalInterest) =
                 calculateAmort_loop isBegin i pmt (amortP1 s) (amortP2 s) 1 (pv, Fin 0, Fin 0)
           in s\<lparr>amortResults :=
                   Some \<lparr>principal = totalPrincipal, interest = totalInterest,
                         balance = bal\<rparr>,
                 entry := stripCommas (formatNumber h bal),
                 isNewEntry := True\<rparr>)"

text \<open>
  \<open>setAmortPeriod\<close>: the floored entry becomes both ends of the range when it lies between
  1 and \<open>floor(N)\<close>.  An infinite entry can pass the test only against an infinite N, and
  the loop of \<open>calculateAmort\<close> then never ends: the result \<open>None\<close>.
\<close>

definition setAmortPeriod :: "host \<Rightarrow> state \<Rightarrow> state option" where
  "setAmortPeriod h s =
     (if mode s \<noteq> ''amort'' then Some s
      else let value = floor_js (getEntryValue h s);
               maxN = floor_js (num (N s))
           in if jge value (Fin 1) \<and> jle value maxN
              then (case value of
                      Fin v \<Rightarrow>
                        Some ((showMessage (''Period set to P'' @ numToString h value) ''info''
                                 (calculateAmort h (s\<lparr>amortP1 := \<lfloor>v\<rfloor>, amortP2 := \<lfloor>v\<rfloor>\<rparr>)))
                              \<lparr>isNewEntry := True\<rparr>)
                    | _ \<Rightarrow> None)
              else Some ((showMessage (''Period must be 1 to '' @ numToString h maxN) ''error'' s)
                         \<lparr>isNewEntry := True\<rparr>))"

section \<open>Definitions of the statements\<close>

text \<open>
  The amortization schedule in the words of the spec.  \<open>spec_balance\<close> is the balance
  after \<open>k\<close> periods of the recurrence, run from period 1 on the balance PV: at the end
  of the period, \<open>interest = balance * i\<close> and \<open>balance += interest + PMT\<close>; at the
  beginning of the period, \<open>principal = -PMT\<close>, \<open>balance += principal\<close>,
  \<open>interest = balance * i\<close> and \<open>balance += interest\<close>.  \<open>spec_interest\<close> and
  \<open>spec_principal\<close> are the interest and the principal of period \<open>k\<close> (from 1), the
  principal at the end of the period being \<open>-PMT - interest\<close>.
\<close>

fun spec_balance :: "bool \<Rightarrow> jsnum \<Rightarrow> jsnum \<Rightarrow> jsnum \<Rightarrow> nat \<Rightarrow> jsnum" where
  "spec_balance isBegin i pmt pv 0 = pv"
| "spec_balance isBegin i pmt pv (Suc k) =
     (let b = spec_balance isBegin i pmt pv k
      in if isBegin
         then jadd (jadd b (jneg pmt)) (jmul (jadd b (jneg pmt)) i)
         else jadd b (jadd (jmul b i) pmt))"

definition spec_interest :: "bool \<Rightarrow> jsnum \<Rightarrow> jsnum \<Rightarrow> jsnum \<Rightarrow> nat \<Rightarrow> jsnum" where
  "spec_interest isBegin i pmt pv k =
     (let b = spec_balance isBegin i pmt pv (k - 1)
      in if isBegin then jmul (jadd b (jneg pmt)) i else jmul b i)"

definition spec_principal :: "bool \<Rightarrow> jsnum \<Rightarrow> jsnum \<Rightarrow> jsnum \<Rightarrow> nat \<Rightarrow> jsnum" where
  "spec_principal isBegin i pmt pv k =
     (if isBegin then jneg pmt else jsub (jneg pmt) (spec_interest isBegin i pmt pv k))"


text \<open>A number between the ends of the default bracket of the two bisections.\<close>

definition inBracket :: "jsnum \<Rightarrow> bool" where
  "inBracket x = (jle (Fin (- (99 / 100))) x \<and> jle x (Fin 2))"

section \<open>Loops and numbers: basic facts\<close>

text \<open>
  The equations of the three counting loops are unfolded by hand (they rewrite a loop to
  itself under a test).
\<close>

declare calculateNPV_loop.simps [simp del]
declare calculateIRR_npvFunc_loop.simps [simp del]
declare calculateAmort_loop.simps [simp del]

lemma jle_trans: "jle x y \<Longrightarrow> jle y z \<Longrightarrow> jle x z"
  by (cases x; cases y; cases z; simp)

lemma jadd_zero_left [simp]: "jadd (Fin 0) x = x"
  by (cases x) simp_all

lemma jdiv_one [simp]: "jdiv x (Fin 1) = x"
  by (cases x) simp_all

text \<open>A whole exponent: \<open>Math.pow\<close> is the power, for every finite base.\<close>

lemma pow_nat: "pow (Fin b) (Fin (real t)) = Fin (b ^ t)"
proof (cases "t = 0")
  case True
  then show ?thesis by simp
next
  case False
  then have t: "real t \<noteq> 0" "0 < real t" by simp_all
  have z: "real t \<in> \<int>" by simp
  have f: "\<lfloor>real t\<rfloor> = int t" by simp
  show ?thesis
  proof (cases "0 < b")
    case True
    then show ?thesis using t by (simp add: powr_realpow)
  next
    case nb: False
    show ?thesis
    proof (cases "b = 0")
      case True
      then show ?thesis using t False by simp
    next
      case False
      then show ?thesis
        using nb t z by (simp only: pow.simps f power_int_of_nat if_False if_True)
    qed
  qed
qed

lemma foldl_jadd_Fin:
  "foldl jadd (Fin a) (map (\<lambda>t. Fin (g t)) ts) = Fin (a + sum_list (map g ts))"
  by (induction ts arbitrary: a) (simp_all add: add.assoc)

section \<open>The two bisections\<close>

lemma inBracket_mid:
  "inBracket lo \<Longrightarrow> inBracket hi \<Longrightarrow> inBracket (jdiv (jadd lo hi) (Fin 2))"
  by (cases lo; cases hi; simp add: inBracket_def)

lemma bisectionSolveI_loop_inBracket:
  "inBracket lo \<Longrightarrow> inBracket hi \<Longrightarrow> inBracket (bisectionSolveI_loop k f (lo, hi, fLo, fHi))"
  by (induction k arbitrary: lo hi fLo fHi) (simp_all add: Let_def inBracket_mid)

text \<open>The two bisection loops are the same function.\<close>

lemma bisectionIRR_loop_eq: "bisectionIRR_loop k f b = bisectionSolveI_loop k f b"
proof (induction k arbitrary: b)
  case 0
  then show ?case by (cases b) simp
next
  case (Suc k)
  then show ?case by (cases b) (simp add: Let_def)
qed

lemma bisectionSolveI_probe_inBracket:
  "inBracket lo \<Longrightarrow> inBracket hi \<Longrightarrow> list_all inBracket tests \<Longrightarrow>
   bisectionSolveI_probe f tests (lo, hi, fLo, fHi) = (lo', hi', fLo', fHi') \<Longrightarrow>
   inBracket lo' \<and> inBracket hi'"
  by (induction tests) (auto split: if_splits)

lemma bisectionIRR_probe_inBracket:
  "inBracket lo \<Longrightarrow> inBracket hi \<Longrightarrow> list_all inBracket tests \<Longrightarrow>
   bisectionIRR_probe f tests (lo, hi, fLo, fHi) = (lo', hi', fLo', fHi') \<Longrightarrow>
   inBracket lo' \<and> inBracket hi'"
  by (induction tests) (auto split: if_splits)

lemma bisectionSolveI_inBracket:
  "inBracket (bisectionSolveI f (Fin (- (99 / 100))) (Fin 2) maxIter)"
proof -
  let ?b0 = "(Fin (- (99 / 100)), Fin 2, f (Fin (- (99 / 100))), f (Fin 2))"
  let ?tests =
    "[Fin (- (1 / 2)), Fin 0, Fin (1 / 100), Fin (1 / 10), Fin (1 / 2), Fin 1, Fin (3 / 2)]"
  obtain lo hi fLo fHi where p: "bisectionSolveI_probe f ?tests ?b0 = (lo, hi, fLo, fHi)"
    by (metis prod_cases4)
  have e: "inBracket (Fin (- (99 / 100)))" "inBracket (Fin 2)"
    by (simp_all add: inBracket_def)
  have t: "list_all inBracket ?tests"
    by (simp add: inBracket_def)
  from bisectionSolveI_probe_inBracket [OF e t p] have "inBracket lo" "inBracket hi"
    by simp_all
  then have "inBracket (bisectionSolveI_loop maxIter f (lo, hi, fLo, fHi))"
    by (rule bisectionSolveI_loop_inBracket)
  moreover have "inBracket (bisectionSolveI_loop maxIter f ?b0)"
    using e by (rule bisectionSolveI_loop_inBracket)
  ultimately show ?thesis
    using p by (simp add: bisectionSolveI_def Let_def)
qed

lemma bisectionIRR_inBracket:
  "inBracket (bisectionIRR f (Fin (- (99 / 100))) (Fin 2) maxIter)"
proof -
  let ?b0 = "(Fin (- (99 / 100)), Fin 2, f (Fin (- (99 / 100))), f (Fin 2))"
  let ?tests = "[Fin (- (1 / 2)), Fin 0, Fin (1 / 100), Fin (1 / 10), Fin (1 / 2), Fin 1]"
  obtain lo hi fLo fHi where p: "bisectionIRR_probe f ?tests ?b0 = (lo, hi, fLo, fHi)"
    by (metis prod_cases4)
  have e: "inBracket (Fin (- (99 / 100)))" "inBracket (Fin 2)"
    by (simp_all add: inBracket_def)
  have t: "list_all inBracket ?tests"
    by (simp add: inBracket_def)
  from bisectionIRR_probe_inBracket [OF e t p] have "inBracket lo" "inBracket hi"
    by simp_all
  then have "inBracket (bisectionSolveI_loop maxIter f (lo, hi, fLo, fHi))"
    by (rule bisectionSolveI_loop_inBracket)
  moreover have "inBracket (bisectionSolveI_loop maxIter f ?b0)"
    using e by (rule bisectionSolveI_loop_inBracket)
  ultimately show ?thesis
    using p by (simp add: bisectionIRR_def Let_def bisectionIRR_loop_eq)
qed

text \<open>
  Claim C9.  For every objective function \<open>f\<close> (whatever it returns, NaN and the
  infinities included) and every iteration budget, both bisections started on the bracket
  \<open>lo = -0.99\<close>, \<open>hi = 2\<close> return a number between \<open>-0.99\<close> and \<open>2\<close>: an end of the bracket
  only ever becomes a candidate of the list or a midpoint.
\<close>

theorem bisection_result_in_default_bracket:
  "jle (Fin (- (99 / 100))) (bisectionSolveI f (Fin (- (99 / 100))) (Fin 2) maxIter)
   \<and> jle (bisectionSolveI f (Fin (- (99 / 100))) (Fin 2) maxIter) (Fin 2)
   \<and> jle (Fin (- (99 / 100))) (bisectionIRR f (Fin (- (99 / 100))) (Fin 2) maxIter)
   \<and> jle (bisectionIRR f (Fin (- (99 / 100))) (Fin 2) maxIter) (Fin 2)"
  using bisectionSolveI_inBracket [of f maxIter] bisectionIRR_inBracket [of f maxIter]
  by (simp add: inBracket_def)

text \<open>The bisection loop returns a number between the ends of the bracket it starts on.\<close>

lemma bisectionSolveI_loop_between:
  "a \<le> b \<Longrightarrow> jle (Fin a) (bisectionSolveI_loop k f (Fin a, Fin b, fLo, fHi))
     \<and> jle (bisectionSolveI_loop k f (Fin a, Fin b, fLo, fHi)) (Fin b)"
proof (induction k arbitrary: a b fLo fHi)
  case 0
  then show ?case by simp
next
  case (Suc k)
  let ?m = "(a + b) / 2"
  from Suc.prems have m: "a \<le> ?m" "?m \<le> b" by simp_all
  have am: "jle (Fin a) (Fin ?m)" and mb: "jle (Fin ?m) (Fin b)" using m by simp_all
  have up: "jle x (Fin b)" if "jle x (Fin ?m)" for x
    using that mb by (rule jle_trans)
  have down: "jle (Fin a) x" if "jle (Fin ?m) x" for x
    using am that by (rule jle_trans)
  from Suc.IH [OF m(1)] Suc.IH [OF m(2)] am mb up down show ?case
    by (simp add: Let_def)
qed

text \<open>The objective function of the cash flows 100, -500, 624: its roots are 1.4 and 1.6.\<close>

lemma npvFunc_100_500_624:
  "1 + r \<noteq> 0 \<Longrightarrow> calculateIRR_npvFunc [Fin 100, Fin (- 500), Fin 624] (Fin r)
     = Fin (100 - 500 / (1 + r) + 624 / ((1 + r) * (1 + r)))"
  by (simp add: calculateIRR_npvFunc_def calculateIRR_npvFunc_loop.simps power2_eq_square)

lemma bisectionSolveI_100_500_624:
  "bisectionSolveI (calculateIRR_npvFunc [Fin 100, Fin (- 500), Fin 624])
     (Fin (- (99 / 100))) (Fin 2) k
   = bisectionSolveI_loop k (calculateIRR_npvFunc [Fin 100, Fin (- 500), Fin 624])
       (Fin (- (99 / 100)), Fin (3 / 2), Fin 6190100, Fin (- (4 / 25)))"
  by (simp add: bisectionSolveI_def npvFunc_100_500_624 Let_def jgt_def)

lemma bisectionIRR_100_500_624:
  "bisectionIRR (calculateIRR_npvFunc [Fin 100, Fin (- 500), Fin 624])
     (Fin (- (99 / 100))) (Fin 2) (Suc (Suc (Suc k)))
   = bisectionSolveI_loop k (calculateIRR_npvFunc [Fin 100, Fin (- 500), Fin 624])
       (Fin (1301 / 800), Fin 2, Fin (380100 / 4414201), Fin (8 / 3))"
  by (simp add: bisectionIRR_def npvFunc_100_500_624 Let_def jgt_def bisectionIRR_loop_eq)

text \<open>
  Claim C5, as the spec states it, fails.  On the objective function of the cash flows
  100, -500, 624 and the default bracket, the candidate 1.5 is the only one that shows a
  sign change.  \<open>bisectionSolveI\<close> has it in its list, moves \<open>hi\<close> to 1.5 and returns a
  number at most 1.5 (it closes in on the root 1.4); \<open>bisectionIRR\<close> has no candidate 1.5,
  keeps the bracket, moves \<open>lo\<close> to 0.505, 1.2525 and 1.62625, and returns a number of at
  least 1.62625.
\<close>

theorem bisection_fallbacks_differ:
  "bisectionIRR (calculateIRR_npvFunc [Fin 100, Fin (- 500), Fin 624])
     (Fin (- (99 / 100))) (Fin 2) 100
   \<noteq> bisectionSolveI (calculateIRR_npvFunc [Fin 100, Fin (- 500), Fin 624])
     (Fin (- (99 / 100))) (Fin 2) 100"
proof
  let ?f = "calculateIRR_npvFunc [Fin 100, Fin (- 500), Fin 624]"
  let ?x = "bisectionSolveI ?f (Fin (- (99 / 100))) (Fin 2) 100"
  assume eq: "bisectionIRR ?f (Fin (- (99 / 100))) (Fin 2) 100 = ?x"
  have n: "(100::nat) = Suc (Suc (Suc 97))" by simp
  have "jle (Fin (1301 / 800)) (bisectionIRR ?f (Fin (- (99 / 100))) (Fin 2) 100)"
    unfolding n bisectionIRR_100_500_624
    using bisectionSolveI_loop_between [of "1301 / 800" 2] by simp
  then have lower: "jle (Fin (1301 / 800)) ?x" using eq by simp
  have upper: "jle ?x (Fin (3 / 2))"
    unfolding bisectionSolveI_100_500_624
    using bisectionSolveI_loop_between [of "- (99 / 100)" "3 / 2"] by simp
  from lower upper have "jle (Fin (1301 / 800)) (Fin (3 / 2))" by (rule jle_trans)
  then show False by simp
qed

text \<open>
  Claim C5, amended.  The two fallbacks run the same bisection loop (at most \<open>maxIter\<close>
  iterations, residual tolerance \<open>1e-10\<close>) and return the same result on every objective
  function and bracket whose ends already show a sign change (\<open>f(lo) * f(hi)\<close> is not
  positive); and on the default bracket from -0.99 to 2 they return the same result
  whenever the candidate 1.5 shows no sign change against either end.  The candidate
  lists are not the same: the one of I/Y is -0.5, 0, 0.01, 0.1, 0.5, 1, 1.5 and a
  candidate counts only strictly inside the bracket; the one of IRR is -0.5, 0, 0.01,
  0.1, 0.5, 1 and is not compared with the bracket.
\<close>

theorem bisection_fallbacks_agree:
  "(\<not> jgt (jmul (f lo) (f hi)) (Fin 0)
      \<longrightarrow> bisectionIRR f lo hi maxIter = bisectionSolveI f lo hi maxIter)
   \<and> (\<not> jlt (jmul (f (Fin (3 / 2))) (f (Fin (- (99 / 100))))) (Fin 0)
        \<and> \<not> jlt (jmul (f (Fin (3 / 2))) (f (Fin 2))) (Fin 0)
      \<longrightarrow> bisectionIRR f (Fin (- (99 / 100))) (Fin 2) maxIter
            = bisectionSolveI f (Fin (- (99 / 100))) (Fin 2) maxIter)"
  by (simp add: bisectionIRR_def bisectionSolveI_def Let_def jgt_def bisectionIRR_loop_eq)

theorem bisection_fallbacks_agree_witness:
  "\<not> jgt (jmul (calculateIRR_npvFunc [Fin (- 100), Fin 110] (Fin (- (99 / 100))))
              (calculateIRR_npvFunc [Fin (- 100), Fin 110] (Fin 2))) (Fin 0)
   \<and> bisectionIRR (calculateIRR_npvFunc [Fin (- 100), Fin 110]) (Fin (- (99 / 100))) (Fin 2) 100
     = bisectionSolveI (calculateIRR_npvFunc [Fin (- 100), Fin 110])
         (Fin (- (99 / 100))) (Fin 2) 100
   \<and> \<not> jlt (jmul (calculateIRR_npvFunc [Fin 100, Fin 10] (Fin (3 / 2)))
                 (calculateIRR_npvFunc [Fin 100, Fin 10] (Fin (- (99 / 100))))) (Fin 0)
   \<and> \<not> jlt (jmul (calculateIRR_npvFunc [Fin 100, Fin 10] (Fin (3 / 2)))
                 (calculateIRR_npvFunc [Fin 100, Fin 10] (Fin 2))) (Fin 0)
   \<and> bisectionIRR (calculateIRR_npvFunc [Fin 100, Fin 10]) (Fin (- (99 / 100))) (Fin 2) 100
     = bisectionSolveI (calculateIRR_npvFunc [Fin 100, Fin 10]) (Fin (- (99 / 100))) (Fin 2) 100"
proof -
  have a: "\<not> jgt (jmul (calculateIRR_npvFunc [Fin (- 100), Fin 110] (Fin (- (99 / 100))))
                       (calculateIRR_npvFunc [Fin (- 100), Fin 110] (Fin 2))) (Fin 0)"
    by (simp add: calculateIRR_npvFunc_def calculateIRR_npvFunc_loop.simps jgt_def)
  have b: "\<not> jlt (jmul (calculateIRR_npvFunc [Fin 100, Fin 10] (Fin (3 / 2)))
                       (calculateIRR_npvFunc [Fin 100, Fin 10] (Fin (- (99 / 100))))) (Fin 0)"
    by (simp add: calculateIRR_npvFunc_def calculateIRR_npvFunc_loop.simps)
  have c: "\<not> jlt (jmul (calculateIRR_npvFunc [Fin 100, Fin 10] (Fin (3 / 2)))
                       (calculateIRR_npvFunc [Fin 100, Fin 10] (Fin 2))) (Fin 0)"
    by (simp add: calculateIRR_npvFunc_def calculateIRR_npvFunc_loop.simps)
  show ?thesis
    using a b c
      bisection_fallbacks_agree
        [of "calculateIRR_npvFunc [Fin (- 100), Fin 110]" "Fin (- (99 / 100))" "Fin 2" 100]
      bisection_fallbacks_agree
        [of "calculateIRR_npvFunc [Fin 100, Fin 10]" "Fin (- (99 / 100))" "Fin 2" 100]
    by blast
qed

section \<open>The timing flag without a payment\<close>






lemma jadd_ovf_NaN [simp]: "jadd_ovf x NaN = NaN" "jadd_ovf NaN x = NaN"
  by (cases x; simp add: jadd_ovf_def)+

lemma jdiv_ovf_NaN [simp]: "jdiv_ovf NaN x = NaN"
  by (simp add: jdiv_ovf_def)





text \<open>
  A rate of 100 percent a period (I/Y = 1200 with twelve payments and twelve
  compoundings a year) and 1023 periods: the factor for payments at the end of the
  period is \<open>2^1023 - 1\<close>, and twice that is beyond the largest number of the format.
\<close>

lemma rate1200: "getPeriodicRate (Fin 1200) (Fin 12) (Fin 12) = Fin 1"
  by (simp add: getPeriodicRate_def jeq_def)





section \<open>CPT: the orchestration\<close>

lemma getReg_cleared [simp]:
  "getReg ((clearMessage s)\<lparr>rclMode := False\<rparr>) v = getReg s v"
  by (simp add: getReg_def clearMessage_def)

lemma compute_solve_cleared [simp]:
  "compute_solve v ((clearMessage s)\<lparr>rclMode := False\<rparr>) = compute_solve v s"
  by (simp add: compute_solve_def clearMessage_def)

lemma getReg_showMessage [simp]: "getReg (showMessage m t s) v = getReg s v"
  by (simp add: getReg_def showMessage_def)

text \<open>
  Claim C3.  \<open>solvePMT\<close> returns NaN when the absolute value of the annuity factor is
  below \<open>1e-15\<close>.  \<open>compute\<close>, on every state: with no blank register it only clears the
  recall mode and shows the information message that all values are set; with more than
  one blank register it shows the error message that more values are needed and calls no
  solver; with one blank register and a solver result that is not finite or is NaN it
  shows the error message that no solution was found, and the register stays blank.  In
  all three cases the state changes in the message and the recall mode only.
\<close>

theorem compute_orchestration:
  "(jlt (jabs (annuityFactor i n isBegin)) (Fin (1 / 10 ^ 15))
      \<longrightarrow> solvePMT n i pv fv isBegin = NaN)
   \<and> (filter (\<lambda>v. getReg s v = None) tvmVars = []
      \<longrightarrow> compute h s = showMessage ''All values set - clear one to compute'' ''info''
                          ((clearMessage s)\<lparr>rclMode := False\<rparr>))
   \<and> (length (filter (\<lambda>v. getReg s v = None) tvmVars) > 1
      \<longrightarrow> compute h s = showMessage ''SET MORE VALUES'' ''error''
                          ((clearMessage s)\<lparr>rclMode := False\<rparr>))
   \<and> (filter (\<lambda>v. getReg s v = None) tvmVars = [v]
        \<and> (\<not> isFinite (compute_solve v s) \<or> isNaN (compute_solve v s))
      \<longrightarrow> compute h s = showMessage ''No solution found'' ''error''
                          ((clearMessage s)\<lparr>rclMode := False\<rparr>)
          \<and> getReg (compute h s) v = None)"
proof (intro conjI impI)
  assume "jlt (jabs (annuityFactor i n isBegin)) (Fin (1 / 10 ^ 15))"
  then show "solvePMT n i pv fv isBegin = NaN"
    by (simp add: solvePMT_def Let_def)
next
  assume "filter (\<lambda>v. getReg s v = None) tvmVars = []"
  then show "compute h s = showMessage ''All values set - clear one to compute'' ''info''
                          ((clearMessage s)\<lparr>rclMode := False\<rparr>)"
    by (simp add: compute_def Let_def)
next
  assume "length (filter (\<lambda>v. getReg s v = None) tvmVars) > 1"
  then show "compute h s = showMessage ''SET MORE VALUES'' ''error''
                          ((clearMessage s)\<lparr>rclMode := False\<rparr>)"
    by (auto simp add: compute_def Let_def)
next
  assume a: "filter (\<lambda>v. getReg s v = None) tvmVars = [v]
        \<and> (\<not> isFinite (compute_solve v s) \<or> isNaN (compute_solve v s))"
  then show c: "compute h s = showMessage ''No solution found'' ''error''
                          ((clearMessage s)\<lparr>rclMode := False\<rparr>)"
    by (simp add: compute_def Let_def)
  from a have "v \<in> set (filter (\<lambda>v. getReg s v = None) tvmVars)" by simp
  then have "getReg s v = None" by simp
  then show "getReg (compute h s) v = None" by (simp add: c)
qed

text \<open>
  The witness: no payment period (N = 0) at 6 percent, PV = 100, FV = -100.  With PMT
  blank the solver returns NaN and nothing is stored; with PMT set nothing is blank; in
  the initial state all five registers are blank.
\<close>

theorem compute_orchestration_witness:
  "\<forall>h.
     jlt (jabs (annuityFactor (Fin (1 / 200)) (Fin 0) False)) (Fin (1 / 10 ^ 15))
   \<and> solvePMT (Fin 0) (Fin (1 / 200)) (Fin 100) (Fin (- 100)) False = NaN
   \<and> filter (\<lambda>v. getReg (initialState\<lparr>N := Some (Fin 0), IY := Some (Fin 6),
         PV := Some (Fin 100), PMT := Some (Fin 5), FV := Some (Fin (- 100))\<rparr>) v = None)
       tvmVars = []
   \<and> compute h (initialState\<lparr>N := Some (Fin 0), IY := Some (Fin 6),
         PV := Some (Fin 100), PMT := Some (Fin 5), FV := Some (Fin (- 100))\<rparr>)
     = showMessage ''All values set - clear one to compute'' ''info''
         ((clearMessage (initialState\<lparr>N := Some (Fin 0), IY := Some (Fin 6),
            PV := Some (Fin 100), PMT := Some (Fin 5), FV := Some (Fin (- 100))\<rparr>))
          \<lparr>rclMode := False\<rparr>)
   \<and> length (filter (\<lambda>v. getReg initialState v = None) tvmVars) > 1
   \<and> compute h initialState
     = showMessage ''SET MORE VALUES'' ''error'' ((clearMessage initialState)\<lparr>rclMode := False\<rparr>)
   \<and> filter (\<lambda>v. getReg (initialState\<lparr>N := Some (Fin 0), IY := Some (Fin 6),
         PV := Some (Fin 100), FV := Some (Fin (- 100))\<rparr>) v = None) tvmVars = [''PMT'']
   \<and> compute_solve ''PMT'' (initialState\<lparr>N := Some (Fin 0), IY := Some (Fin 6),
         PV := Some (Fin 100), FV := Some (Fin (- 100))\<rparr>) = NaN
   \<and> compute h (initialState\<lparr>N := Some (Fin 0), IY := Some (Fin 6),
         PV := Some (Fin 100), FV := Some (Fin (- 100))\<rparr>)
     = showMessage ''No solution found'' ''error''
         ((clearMessage (initialState\<lparr>N := Some (Fin 0), IY := Some (Fin 6),
            PV := Some (Fin 100), FV := Some (Fin (- 100))\<rparr>))\<lparr>rclMode := False\<rparr>)
   \<and> getReg (compute h (initialState\<lparr>N := Some (Fin 0), IY := Some (Fin 6),
         PV := Some (Fin 100), FV := Some (Fin (- 100))\<rparr>)) ''PMT'' = None"
proof
  fix h
  let ?sAll = "initialState\<lparr>N := Some (Fin 0), IY := Some (Fin 6),
         PV := Some (Fin 100), PMT := Some (Fin 5), FV := Some (Fin (- 100))\<rparr>"
  let ?sPMT = "initialState\<lparr>N := Some (Fin 0), IY := Some (Fin 6),
         PV := Some (Fin 100), FV := Some (Fin (- 100))\<rparr>"
  have af: "jlt (jabs (annuityFactor (Fin (1 / 200)) (Fin 0) False)) (Fin (1 / 10 ^ 15))"
    by (simp add: annuityFactor_def jsub_def)
  have all: "filter (\<lambda>v. getReg ?sAll v = None) tvmVars = []"
    by (simp add: tvmVars_def getReg_def initialState_def)
  have many: "length (filter (\<lambda>v. getReg initialState v = None) tvmVars) > 1"
    by (simp add: tvmVars_def getReg_def initialState_def)
  have one: "filter (\<lambda>v. getReg ?sPMT v = None) tvmVars = [''PMT'']"
    by (simp add: tvmVars_def getReg_def initialState_def)
  have nan: "compute_solve ''PMT'' ?sPMT = NaN"
    by (simp add: compute_solve_def initialState_def solvePMT_def annuityFactor_def
        getPeriodicRate_def jeq_def jsub_def Let_def)
  have nf: "\<not> isFinite (compute_solve ''PMT'' ?sPMT) \<or> isNaN (compute_solve ''PMT'' ?sPMT)"
    by (simp add: nan)
  from af all many one nan nf
    compute_orchestration [where i = "Fin (1 / 200)" and n = "Fin 0" and isBegin = False
      and pv = "Fin 100" and fv = "Fin (- 100)" and s = ?sAll and h = h]
    compute_orchestration [where s = initialState and h = h]
    compute_orchestration [where s = ?sPMT and h = h and v = "''PMT''"]
  show "jlt (jabs (annuityFactor (Fin (1 / 200)) (Fin 0) False)) (Fin (1 / 10 ^ 15))
   \<and> solvePMT (Fin 0) (Fin (1 / 200)) (Fin 100) (Fin (- 100)) False = NaN
   \<and> filter (\<lambda>v. getReg ?sAll v = None) tvmVars = []
   \<and> compute h ?sAll
     = showMessage ''All values set - clear one to compute'' ''info''
         ((clearMessage ?sAll)\<lparr>rclMode := False\<rparr>)
   \<and> length (filter (\<lambda>v. getReg initialState v = None) tvmVars) > 1
   \<and> compute h initialState
     = showMessage ''SET MORE VALUES'' ''error'' ((clearMessage initialState)\<lparr>rclMode := False\<rparr>)
   \<and> filter (\<lambda>v. getReg ?sPMT v = None) tvmVars = [''PMT'']
   \<and> compute_solve ''PMT'' ?sPMT = NaN
   \<and> compute h ?sPMT
     = showMessage ''No solution found'' ''error'' ((clearMessage ?sPMT)\<lparr>rclMode := False\<rparr>)
   \<and> getReg (compute h ?sPMT) ''PMT'' = None"
    by blast
qed

section \<open>NPV\<close>

lemma calculateNPV_loop_foldl:
  "calculateNPV_loop cfs pr t acc
   = foldl jadd acc
       (map (\<lambda>t. jdiv (cfs ! t) (pow (jadd (Fin 1) pr) (Fin (real t)))) [t..<length cfs])"
proof (induction cfs pr t acc rule: calculateNPV_loop.induct)
  case (1 cfs pr t acc)
  show ?case
  proof (cases "t < length cfs")
    case True
    with "1" show ?thesis
      by (subst calculateNPV_loop.simps) (simp add: upt_conv_Cons)
  next
    case False
    then show ?thesis by (subst calculateNPV_loop.simps) simp
  qed
qed

lemma calculateNPV_lastComputed:
  "2 \<le> length (cashFlows s) \<Longrightarrow> IY s = Some rate \<Longrightarrow>
   lastComputed (calculateNPV h s)
   = Some (calculateNPV_loop (cashFlows s) (jdiv (jdiv rate (Fin 100)) (PY s)) 0 (Fin 0))"
  by (simp add: calculateNPV_def showMessage_def Let_def)

text \<open>
  Claim C4.  \<open>calculateNPV\<close> rejects a list of fewer than two cash flows with the error
  message that at least two are needed.  On a list of at least two cash flows and a
  discount rate in I/Y, the value it computes (and leaves in \<open>lastComputed\<close>) is the sum,
  taken in order from index 0, of \<open>CF[t] / (1 + rate/100/PY)^t\<close>; for finite cash flows,
  rate and P/Y, with P/Y and \<open>1 + rate/100/PY\<close> not zero, this is the real number
  \<open>\<Sum> CF[t] / (1 + rate/100/PY)^t\<close>.  At rate zero the NPV of two cash flows is their sum.
\<close>

theorem npv_direct_summation:
  "(length (cashFlows s) < 2
      \<longrightarrow> calculateNPV h s = showMessage ''Enter at least 2 cash flows'' ''error'' s)
   \<and> (2 \<le> length (cashFlows s) \<and> IY s = Some rate
      \<longrightarrow> lastComputed (calculateNPV h s)
          = Some (foldl jadd (Fin 0)
                    (map (\<lambda>t. jdiv (cashFlows s ! t)
                                  (pow (jadd (Fin 1) (jdiv (jdiv rate (Fin 100)) (PY s)))
                                       (Fin (real t))))
                         [0..<length (cashFlows s)])))
   \<and> (2 \<le> length cfs \<and> cashFlows s = map Fin cfs \<and> IY s = Some (Fin r) \<and> PY s = Fin py
        \<and> py \<noteq> 0 \<and> 1 + r / 100 / py \<noteq> 0
      \<longrightarrow> lastComputed (calculateNPV h s)
          = Some (Fin (\<Sum>t<length cfs. cfs ! t / (1 + r / 100 / py) ^ t)))
   \<and> (cashFlows s = [cf0, cf1] \<and> IY s = Some (Fin 0) \<and> PY s = Fin py \<and> py \<noteq> 0
      \<longrightarrow> lastComputed (calculateNPV h s) = Some (jadd cf0 cf1))"
proof (intro conjI impI)
  assume "length (cashFlows s) < 2"
  then show "calculateNPV h s = showMessage ''Enter at least 2 cash flows'' ''error'' s"
    by (simp add: calculateNPV_def)
next
  assume "2 \<le> length (cashFlows s) \<and> IY s = Some rate"
  then show "lastComputed (calculateNPV h s)
          = Some (foldl jadd (Fin 0)
                    (map (\<lambda>t. jdiv (cashFlows s ! t)
                                  (pow (jadd (Fin 1) (jdiv (jdiv rate (Fin 100)) (PY s)))
                                       (Fin (real t))))
                         [0..<length (cashFlows s)]))"
    by (simp add: calculateNPV_lastComputed calculateNPV_loop_foldl)
next
  assume a: "2 \<le> length cfs \<and> cashFlows s = map Fin cfs \<and> IY s = Some (Fin r)
        \<and> PY s = Fin py \<and> py \<noteq> 0 \<and> 1 + r / 100 / py \<noteq> 0"
  let ?b = "1 + r / 100 / py"
  from a have len: "2 \<le> length (cashFlows s)" and iy: "IY s = Some (Fin r)" by simp_all
  from a have pr: "jadd (Fin 1) (jdiv (jdiv (Fin r) (Fin 100)) (PY s)) = Fin ?b"
    by simp
  have terms:
    "map (\<lambda>t. jdiv (map Fin cfs ! t) (pow (Fin ?b) (Fin (real t)))) [0..<length cfs]
     = map (\<lambda>t. Fin (cfs ! t / ?b ^ t)) [0..<length cfs]"
    using a by (simp del: pow.simps add: pow_nat)
  have "lastComputed (calculateNPV h s)
        = Some (foldl jadd (Fin 0)
             (map (\<lambda>t. jdiv (map Fin cfs ! t) (pow (Fin ?b) (Fin (real t)))) [0..<length cfs]))"
    using a by (simp only: calculateNPV_lastComputed [OF len iy] calculateNPV_loop_foldl pr)
      simp
  also have "\<dots> = Some (Fin (sum_list (map (\<lambda>t. cfs ! t / ?b ^ t) [0..<length cfs])))"
    by (simp only: terms foldl_jadd_Fin) simp
  also have "sum_list (map (\<lambda>t. cfs ! t / ?b ^ t) [0..<length cfs])
             = (\<Sum>t<length cfs. cfs ! t / ?b ^ t)"
    by (simp add: interv_sum_list_conv_sum_set_nat atLeast0LessThan)
  finally show "lastComputed (calculateNPV h s)
          = Some (Fin (\<Sum>t<length cfs. cfs ! t / (1 + r / 100 / py) ^ t))" .
next
  assume a: "cashFlows s = [cf0, cf1] \<and> IY s = Some (Fin 0) \<and> PY s = Fin py \<and> py \<noteq> 0"
  then have len: "2 \<le> length (cashFlows s)" and iy: "IY s = Some (Fin 0)" by simp_all
  have two: "[0..<length (cashFlows s)] = [0, Suc 0]" using a by (simp add: upt_rec)
  show "lastComputed (calculateNPV h s) = Some (jadd cf0 cf1)"
    using a by (simp add: calculateNPV_lastComputed [OF len iy] calculateNPV_loop_foldl two)
qed

text \<open>
  The witness: the initial state has the single cash flow 0 and is rejected; the cash
  flows -100 and 110 at 120 percent a year, twelve payments a year (10 percent a period),
  and at 0 percent.
\<close>

theorem npv_direct_summation_witness:
  "\<forall>h.
     length (cashFlows initialState) < 2
   \<and> calculateNPV h initialState
     = showMessage ''Enter at least 2 cash flows'' ''error'' initialState
   \<and> 2 \<le> length (cashFlows (initialState\<lparr>IY := Some (Fin 120),
                                 cashFlows := [Fin (- 100), Fin 110]\<rparr>))
   \<and> lastComputed (calculateNPV h (initialState\<lparr>IY := Some (Fin 120),
                                      cashFlows := [Fin (- 100), Fin 110]\<rparr>))
     = Some (Fin (\<Sum>t<length [- 100, 110 :: real].
                    [- 100, 110] ! t / (1 + 120 / 100 / 12) ^ t))
   \<and> (\<Sum>t<length [- 100, 110 :: real]. [- 100, 110] ! t / (1 + 120 / 100 / 12) ^ t) = (0::real)
   \<and> lastComputed (calculateNPV h (initialState\<lparr>IY := Some (Fin 0),
                                      cashFlows := [Fin (- 100), Fin 110]\<rparr>))
     = Some (jadd (Fin (- 100)) (Fin 110))"
proof
  fix h
  let ?s1 = "initialState\<lparr>IY := Some (Fin 120), cashFlows := [Fin (- 100), Fin 110]\<rparr>"
  let ?s0 = "initialState\<lparr>IY := Some (Fin 0), cashFlows := [Fin (- 100), Fin 110]\<rparr>"
  have short: "length (cashFlows initialState) < 2"
    by (simp add: initialState_def)
  have h1: "2 \<le> length [- 100, 110 :: real] \<and> cashFlows ?s1 = map Fin [- 100, 110]
      \<and> IY ?s1 = Some (Fin 120) \<and> PY ?s1 = Fin 12 \<and> (12::real) \<noteq> 0
      \<and> (1::real) + 120 / 100 / 12 \<noteq> 0"
    by (simp add: initialState_def)
  have len: "2 \<le> length (cashFlows ?s1)"
    by simp
  have h0: "cashFlows ?s0 = [Fin (- 100), Fin 110] \<and> IY ?s0 = Some (Fin 0)
      \<and> PY ?s0 = Fin 12 \<and> (12::real) \<noteq> 0"
    by (simp add: initialState_def)
  have val: "(\<Sum>t<length [- 100, 110 :: real].
                [- 100, 110] ! t / (1 + 120 / 100 / 12) ^ t) = (0::real)"
    by (simp add: lessThan_Suc)
  from short h1 len h0 val
    npv_direct_summation [where s = initialState and h = h]
    npv_direct_summation [where s = ?s1 and h = h and cfs = "[- 100, 110]" and r = 120
      and py = 12]
    npv_direct_summation [where s = ?s0 and h = h and ?cf0.0 = "Fin (- 100)"
      and ?cf1.0 = "Fin 110" and py = 12]
  show "length (cashFlows initialState) < 2
   \<and> calculateNPV h initialState
     = showMessage ''Enter at least 2 cash flows'' ''error'' initialState
   \<and> 2 \<le> length (cashFlows ?s1)
   \<and> lastComputed (calculateNPV h ?s1)
     = Some (Fin (\<Sum>t<length [- 100, 110 :: real].
                    [- 100, 110] ! t / (1 + 120 / 100 / 12) ^ t))
   \<and> (\<Sum>t<length [- 100, 110 :: real]. [- 100, 110] ! t / (1 + 120 / 100 / 12) ^ t) = (0::real)
   \<and> lastComputed (calculateNPV h ?s0) = Some (jadd (Fin (- 100)) (Fin 110))"
    by blast
qed

section \<open>Amortization\<close>

text \<open>The loop of \<open>calculateAmort\<close> against the schedule of the spec.\<close>

lemma calculateAmort_loop_step:
  assumes "1 \<le> period" and "period \<le> p2"
  shows "calculateAmort_loop isBegin i pmt p1 p2 period
           (spec_balance isBegin i pmt pv (nat (period - 1)), tp, ti)
         = calculateAmort_loop isBegin i pmt p1 p2 (period + 1)
             (spec_balance isBegin i pmt pv (nat (period + 1 - 1)),
              (if p1 \<le> period then jadd tp (spec_principal isBegin i pmt pv (nat period))
               else tp),
              (if p1 \<le> period then jadd ti (spec_interest isBegin i pmt pv (nat period))
               else ti))"
proof -
  from assms have sp: "nat period = Suc (nat (period - 1))" by simp
  from assms have sp': "nat (period + 1 - 1) = Suc (nat (period - 1))" by simp
  show ?thesis
    using assms
    by (subst calculateAmort_loop.simps)
      (cases isBegin; simp add: sp sp' spec_interest_def spec_principal_def Let_def)
qed

lemma calculateAmort_loop_spec:
  "1 \<le> period \<Longrightarrow>
   calculateAmort_loop isBegin i pmt p1 p2 period
     (spec_balance isBegin i pmt pv (nat (period - 1)), tp, ti)
   = (spec_balance isBegin i pmt pv (nat (max (period - 1) p2)),
      foldl jadd tp (map (spec_principal isBegin i pmt pv) [nat (max period p1)..<Suc (nat p2)]),
      foldl jadd ti (map (spec_interest isBegin i pmt pv) [nat (max period p1)..<Suc (nat p2)]))"
proof (induction "nat (p2 + 1 - period)" arbitrary: period tp ti)
  case 0
  then have gt: "p2 < period" by simp
  with "0.prems" have "Suc (nat p2) \<le> nat (max period p1)" by linarith
  then have e: "[nat (max period p1)..<Suc (nat p2)] = []" by (simp del: upt_Suc)
  from gt have m: "max (period - 1) p2 = period - 1" by simp
  show ?case using gt by (subst calculateAmort_loop.simps) (simp del: upt_Suc add: e m)
next
  case (Suc d)
  then have le: "period \<le> p2" by simp
  have d: "d = nat (p2 + 1 - (period + 1))" using Suc.hyps(2) by simp
  have p1': "1 \<le> period + 1" using Suc.prems by simp
  have mx: "max (period + 1 - 1) p2 = max (period - 1) p2" using le by simp
  have sn: "nat (period + 1) = Suc (nat period)" using Suc.prems by simp
  have l: "[nat (max period p1)..<Suc (nat p2)]
        = (if p1 \<le> period then nat period # [nat (max (period + 1) p1)..<Suc (nat p2)]
           else [nat (max (period + 1) p1)..<Suc (nat p2)])"
    using le Suc.prems by (simp del: upt_Suc add: upt_conv_Cons max_def sn)
  show ?case
    unfolding calculateAmort_loop_step [OF Suc.prems le] Suc.hyps(1) [OF d p1'] mx l
    by simp
qed

lemma calculateAmort_results:
  assumes "N s = Some n" "IY s = Some iy" "PV s = Some pv" "PMT s = Some pmt"
  shows "amortResults (calculateAmort h s)
    = Some \<lparr>principal =
               foldl jadd (Fin 0)
                 (map (spec_principal (BGN s) (getPeriodicRate iy (CY s) (PY s)) pmt pv)
                    [nat (max 1 (amortP1 s))..<Suc (nat (amortP2 s))]),
            interest =
               foldl jadd (Fin 0)
                 (map (spec_interest (BGN s) (getPeriodicRate iy (CY s) (PY s)) pmt pv)
                    [nat (max 1 (amortP1 s))..<Suc (nat (amortP2 s))]),
            balance = spec_balance (BGN s) (getPeriodicRate iy (CY s) (PY s)) pmt pv
                        (nat (amortP2 s))\<rparr>"
proof -
  have m: "nat (max (1 - 1) (amortP2 s)) = nat (amortP2 s)" by simp
  have "calculateAmort_loop (BGN s) (getPeriodicRate iy (CY s) (PY s)) pmt (amortP1 s)
          (amortP2 s) 1
          (spec_balance (BGN s) (getPeriodicRate iy (CY s) (PY s)) pmt pv (nat (1 - 1)),
           Fin 0, Fin 0)
        = (spec_balance (BGN s) (getPeriodicRate iy (CY s) (PY s)) pmt pv (nat (amortP2 s)),
           foldl jadd (Fin 0)
             (map (spec_principal (BGN s) (getPeriodicRate iy (CY s) (PY s)) pmt pv)
                [nat (max 1 (amortP1 s))..<Suc (nat (amortP2 s))]),
           foldl jadd (Fin 0)
             (map (spec_interest (BGN s) (getPeriodicRate iy (CY s) (PY s)) pmt pv)
                [nat (max 1 (amortP1 s))..<Suc (nat (amortP2 s))]))"
    by (simp only: calculateAmort_loop_spec [of 1] m)
  then show ?thesis
    using assms by (simp add: calculateAmort_def Let_def del: upt_Suc)
qed








lemma rate10: "getPeriodicRate (Fin 120) (Fin 12) (Fin 12) = Fin (1 / 10)"
  by (simp add: getPeriodicRate_def jeq_def)


lemma calculateAmort_range [simp]:
  "amortP1 (calculateAmort h s) = amortP1 s" "amortP2 (calculateAmort h s) = amortP2 s"
  by (simp_all add: calculateAmort_def Let_def split: prod.splits)


text \<open>
  Claim C2.  With N, I/Y, PV and PMT set and a range that starts at period 1 or later,
  \<open>calculateAmort\<close> runs the balance recurrence of the spec from period 1 through P2 on
  the balance PV, in the order of the timing flag, and reports as totals the sums of the
  principal and of the interest of the periods P1 to P2 only, and as ending balance the
  balance after all of the periods 1 to P2.  (The bounds \<open>P1 \<le> P2 \<le> floor(N)\<close> of the
  claim are not needed.)
\<close>

theorem amortization_recurrence:
  "N s = Some n \<and> IY s = Some iy \<and> PV s = Some pv \<and> PMT s = Some pmt \<and> 1 \<le> amortP1 s
   \<longrightarrow> amortResults (calculateAmort h s)
       = Some \<lparr>principal =
                  foldl jadd (Fin 0)
                    (map (spec_principal (BGN s) (getPeriodicRate iy (CY s) (PY s)) pmt pv)
                       [nat (amortP1 s)..<Suc (nat (amortP2 s))]),
               interest =
                  foldl jadd (Fin 0)
                    (map (spec_interest (BGN s) (getPeriodicRate iy (CY s) (PY s)) pmt pv)
                       [nat (amortP1 s)..<Suc (nat (amortP2 s))]),
               balance = spec_balance (BGN s) (getPeriodicRate iy (CY s) (PY s)) pmt pv
                           (nat (amortP2 s))\<rparr>"
proof
  assume a: "N s = Some n \<and> IY s = Some iy \<and> PV s = Some pv \<and> PMT s = Some pmt
      \<and> 1 \<le> amortP1 s"
  then have m: "max 1 (amortP1 s) = amortP1 s" by simp
  from a have r: "N s = Some n" "IY s = Some iy" "PV s = Some pv" "PMT s = Some pmt"
    by simp_all
  show "amortResults (calculateAmort h s)
       = Some \<lparr>principal =
                  foldl jadd (Fin 0)
                    (map (spec_principal (BGN s) (getPeriodicRate iy (CY s) (PY s)) pmt pv)
                       [nat (amortP1 s)..<Suc (nat (amortP2 s))]),
               interest =
                  foldl jadd (Fin 0)
                    (map (spec_interest (BGN s) (getPeriodicRate iy (CY s) (PY s)) pmt pv)
                       [nat (amortP1 s)..<Suc (nat (amortP2 s))]),
               balance = spec_balance (BGN s) (getPeriodicRate iy (CY s) (PY s)) pmt pv
                           (nat (amortP2 s))\<rparr>"
    using calculateAmort_results [OF r, of h] by (simp only: m)
qed


text \<open>
  The witness: 210 lent at 10 percent a period (120 percent a year, twelve periods a
  year), repaid by two payments of 121; the range is the second period alone.
\<close>

theorem amortization_recurrence_witness:
  "\<forall>h.
     N (initialState\<lparr>N := Some (Fin 2), IY := Some (Fin 120), PV := Some (Fin 210),
          PMT := Some (Fin (- 121)), amortP1 := 2, amortP2 := 2\<rparr>) = Some (Fin 2)
   \<and> 1 \<le> amortP1 (initialState\<lparr>N := Some (Fin 2), IY := Some (Fin 120),
          PV := Some (Fin 210), PMT := Some (Fin (- 121)), amortP1 := 2, amortP2 := 2\<rparr>)
   \<and> amortResults (calculateAmort h (initialState\<lparr>N := Some (Fin 2), IY := Some (Fin 120),
          PV := Some (Fin 210), PMT := Some (Fin (- 121)), amortP1 := 2, amortP2 := 2\<rparr>))
     = Some \<lparr>principal = Fin 110, interest = Fin 11, balance = Fin 0\<rparr>"
proof
  fix h
  let ?s = "initialState\<lparr>N := Some (Fin 2), IY := Some (Fin 120), PV := Some (Fin 210),
          PMT := Some (Fin (- 121)), amortP1 := 2, amortP2 := 2\<rparr>"
  have hyp: "N ?s = Some (Fin 2) \<and> IY ?s = Some (Fin 120) \<and> PV ?s = Some (Fin 210)
      \<and> PMT ?s = Some (Fin (- 121)) \<and> 1 \<le> amortP1 ?s"
    by simp
  have st: "BGN ?s = False" "CY ?s = Fin 12" "PY ?s = Fin 12" "amortP1 ?s = 2" "amortP2 ?s = 2"
    by (simp_all add: initialState_def)
  have ev:
    "spec_balance False (Fin (1 / 10)) (Fin (- 121)) (Fin 210) (nat 2) = Fin 0"
    "foldl jadd (Fin 0) (map (spec_principal False (Fin (1 / 10)) (Fin (- 121)) (Fin 210))
        [nat 2..<Suc (nat 2)]) = Fin 110"
    "foldl jadd (Fin 0) (map (spec_interest False (Fin (1 / 10)) (Fin (- 121)) (Fin 210))
        [nat 2..<Suc (nat 2)]) = Fin 11"
    by (simp_all add: eval_nat_numeral spec_principal_def spec_interest_def jsub_def Let_def)
  from amortization_recurrence [where s = ?s and h = h and n = "Fin 2" and iy = "Fin 120"
      and pv = "Fin 210" and pmt = "Fin (- 121)"] hyp
  have "amortResults (calculateAmort h ?s)
     = Some \<lparr>principal = Fin 110, interest = Fin 11, balance = Fin 0\<rparr>"
    by (simp only: st rate10 ev)
  with hyp show "N ?s = Some (Fin 2) \<and> 1 \<le> amortP1 ?s
     \<and> amortResults (calculateAmort h ?s)
       = Some \<lparr>principal = Fin 110, interest = Fin 11, balance = Fin 0\<rparr>"
    by blast
qed





text \<open>
  Payments at the beginning of the period are outside the amended statement.  There the
  loop adds \<open>-PMT\<close> to the balance, so a payment that the borrower makes raises the
  balance: for 210 lent at 10 percent a period against two payments of 110 at the
  beginning of the period (the registers satisfy the TVM equation with FV = 0), the code
  reports a principal of 220, an interest of 78.2 and an ending balance of 508.2.
\<close>

lemma amortization_begin_mode_example:
  "\<forall>h.
     solveIY_f (Fin 2) (Fin 210) (Fin (- 110)) (Fin 0) True (Fin (1 / 10)) = Fin 0
   \<and> amortResults (calculateAmort h (initialState\<lparr>N := Some (Fin 2), IY := Some (Fin 120),
         PV := Some (Fin 210), PMT := Some (Fin (- 110)), FV := Some (Fin 0), BGN := True,
         amortP1 := 1, amortP2 := 2\<rparr>))
     = Some \<lparr>principal = Fin 220, interest = Fin (391 / 5), balance = Fin (2541 / 5)\<rparr>"
proof
  fix h
  let ?s = "initialState\<lparr>N := Some (Fin 2), IY := Some (Fin 120),
         PV := Some (Fin 210), PMT := Some (Fin (- 110)), FV := Some (Fin 0), BGN := True,
         amortP1 := 1, amortP2 := 2\<rparr>"
  have tvm: "solveIY_f (Fin 2) (Fin 210) (Fin (- 110)) (Fin 0) True (Fin (1 / 10)) = Fin 0"
    by (simp add: solveIY_f_def annuityFactor_def jsub_def power2_eq_square)
  have r: "N ?s = Some (Fin 2)" "IY ?s = Some (Fin 120)" "PV ?s = Some (Fin 210)"
    "PMT ?s = Some (Fin (- 110))"
    by simp_all
  have st: "BGN ?s = True" "CY ?s = Fin 12" "PY ?s = Fin 12" "amortP1 ?s = 1" "amortP2 ?s = 2"
    by (simp_all add: initialState_def)
  have ev:
    "spec_balance True (Fin (1 / 10)) (Fin (- 110)) (Fin 210) (nat 2) = Fin (2541 / 5)"
    "foldl jadd (Fin 0) (map (spec_principal True (Fin (1 / 10)) (Fin (- 110)) (Fin 210))
        [nat (max 1 1)..<Suc (nat 2)]) = Fin 220"
    "foldl jadd (Fin 0) (map (spec_interest True (Fin (1 / 10)) (Fin (- 110)) (Fin 210))
        [nat (max 1 1)..<Suc (nat 2)]) = Fin (391 / 5)"
    by (simp_all add: eval_nat_numeral spec_principal_def spec_interest_def jsub_def Let_def
        upt_rec)
  have "amortResults (calculateAmort h ?s)
     = Some \<lparr>principal = Fin 220, interest = Fin (391 / 5), balance = Fin (2541 / 5)\<rparr>"
    unfolding calculateAmort_results [OF r, of h] st rate10 ev by simp
  with tvm show "solveIY_f (Fin 2) (Fin 210) (Fin (- 110)) (Fin 0) True (Fin (1 / 10)) = Fin 0
   \<and> amortResults (calculateAmort h ?s)
     = Some \<lparr>principal = Fin 220, interest = Fin (391 / 5), balance = Fin (2541 / 5)\<rparr>"
    by simp
qed

text \<open>
  Claim C7, as the spec states it, fails.  \<open>calculateAmort\<close> checks no range: for the
  range from period 5 to period 3 on an interest-only loan of 1000 (ten periods, 10
  percent a period, payments of 100), it reports totals of zero and the balance after
  three periods, not an error.
\<close>

theorem amortization_accepts_reversed_range:
  "\<forall>h.
     amortResults (calculateAmort h (initialState\<lparr>N := Some (Fin 10), IY := Some (Fin 120),
         PV := Some (Fin 1000), PMT := Some (Fin (- 100)), amortP1 := 5, amortP2 := 3\<rparr>))
     = Some \<lparr>principal = Fin 0, interest = Fin 0, balance = Fin 1000\<rparr>"
proof
  fix h
  let ?s = "initialState\<lparr>N := Some (Fin 10), IY := Some (Fin 120),
         PV := Some (Fin 1000), PMT := Some (Fin (- 100)), amortP1 := 5, amortP2 := 3\<rparr>"
  have r: "N ?s = Some (Fin 10)" "IY ?s = Some (Fin 120)" "PV ?s = Some (Fin 1000)"
    "PMT ?s = Some (Fin (- 100))"
    by simp_all
  have st: "BGN ?s = False" "CY ?s = Fin 12" "PY ?s = Fin 12" "amortP1 ?s = 5" "amortP2 ?s = 3"
    by (simp_all add: initialState_def)
  have b: "spec_balance False (Fin (1 / 10)) (Fin (- 100)) (Fin 1000) (nat 3) = Fin 1000"
    by (simp add: eval_nat_numeral Let_def)
  have e: "[nat (max 1 5)..<Suc (nat 3)] = []"
    by simp
  show "amortResults (calculateAmort h ?s)
     = Some \<lparr>principal = Fin 0, interest = Fin 0, balance = Fin 1000\<rparr>"
    unfolding calculateAmort_results [OF r, of h] st rate10 b e by simp
qed

text \<open>
  Claim C7, amended.  The range check is in \<open>setAmortPeriod\<close>: in amortization mode, an
  entered period whose floor is not between 1 and \<open>floor(N)\<close> is refused with the error
  message \<open>Period must be 1 to floor(N)\<close>, and the range and the results stay as they
  were; an accepted period becomes both ends of the range, so this path never makes a
  range with \<open>P2 < P1\<close>.  \<open>calculateAmort\<close> itself checks only that N, I/Y, PV and PMT are
  set: on a range with \<open>P2 < P1\<close> it reports totals of zero and the balance after P2
  periods.
\<close>

theorem amortization_range_validation:
  "(mode s = ''amort''
      \<and> \<not> (jge (floor_js (getEntryValue h s)) (Fin 1)
             \<and> jle (floor_js (getEntryValue h s)) (floor_js (num (N s))))
    \<longrightarrow> setAmortPeriod h s
        = Some ((showMessage
                   (''Period must be 1 to '' @ numToString h (floor_js (num (N s))))
                   ''error'' s)\<lparr>isNewEntry := True\<rparr>))
   \<and> (mode s = ''amort'' \<and> floor_js (getEntryValue h s) = Fin v \<and> 1 \<le> v
        \<and> jle (Fin v) (floor_js (num (N s)))
    \<longrightarrow> (\<exists>s'. setAmortPeriod h s = Some s' \<and> amortP1 s' = \<lfloor>v\<rfloor> \<and> amortP2 s' = \<lfloor>v\<rfloor>))
   \<and> (N s = Some n \<and> IY s = Some iy \<and> PV s = Some pv \<and> PMT s = Some pmt
        \<and> 1 \<le> amortP1 s \<and> amortP2 s < amortP1 s
    \<longrightarrow> amortResults (calculateAmort h s)
        = Some \<lparr>principal = Fin 0, interest = Fin 0,
                balance = spec_balance (BGN s) (getPeriodicRate iy (CY s) (PY s)) pmt pv
                            (nat (amortP2 s))\<rparr>)"
proof (intro conjI impI)
  assume "mode s = ''amort''
      \<and> \<not> (jge (floor_js (getEntryValue h s)) (Fin 1)
             \<and> jle (floor_js (getEntryValue h s)) (floor_js (num (N s))))"
  then show "setAmortPeriod h s
        = Some ((showMessage
                   (''Period must be 1 to '' @ numToString h (floor_js (num (N s))))
                   ''error'' s)\<lparr>isNewEntry := True\<rparr>)"
    by (auto simp add: setAmortPeriod_def Let_def)
next
  assume "mode s = ''amort'' \<and> floor_js (getEntryValue h s) = Fin v \<and> 1 \<le> v
        \<and> jle (Fin v) (floor_js (num (N s)))"
  then show "\<exists>s'. setAmortPeriod h s = Some s' \<and> amortP1 s' = \<lfloor>v\<rfloor> \<and> amortP2 s' = \<lfloor>v\<rfloor>"
    by (simp add: setAmortPeriod_def Let_def jge_def showMessage_def)
next
  assume a: "N s = Some n \<and> IY s = Some iy \<and> PV s = Some pv \<and> PMT s = Some pmt
        \<and> 1 \<le> amortP1 s \<and> amortP2 s < amortP1 s"
  then have r: "N s = Some n" "IY s = Some iy" "PV s = Some pv" "PMT s = Some pmt"
    by simp_all
  from a have "Suc (nat (amortP2 s)) \<le> nat (max 1 (amortP1 s))" by linarith
  then have e: "[nat (max 1 (amortP1 s))..<Suc (nat (amortP2 s))] = []"
    by (simp del: upt_Suc)
  show "amortResults (calculateAmort h s)
        = Some \<lparr>principal = Fin 0, interest = Fin 0,
                balance = spec_balance (BGN s) (getPeriodicRate iy (CY s) (PY s)) pmt pv
                            (nat (amortP2 s))\<rparr>"
    unfolding calculateAmort_results [OF r, of h] e by simp
qed

text \<open>
  The witness: two periods (N = 2); a host that reads the entry as 7 is refused, one that
  reads it as 2 is accepted; and the range from 5 to 3 of the counterexample.
\<close>

theorem amortization_range_validation_witness:
  "setAmortPeriod \<lparr>formatNumber = (\<lambda>x. []), parseFloat = (\<lambda>str. Fin 7), numToString = (\<lambda>x. [])\<rparr>
       (initialState\<lparr>N := Some (Fin 2), IY := Some (Fin 120), PV := Some (Fin 210),
          PMT := Some (Fin (- 121)), mode := ''amort''\<rparr>)
     = Some (initialState\<lparr>N := Some (Fin 2), IY := Some (Fin 120), PV := Some (Fin 210),
          PMT := Some (Fin (- 121)), mode := ''amort'',
          message := Some (''Period must be 1 to '', ''error''), isNewEntry := True\<rparr>)
   \<and> (\<exists>s'. setAmortPeriod
              \<lparr>formatNumber = (\<lambda>x. []), parseFloat = (\<lambda>str. Fin 2), numToString = (\<lambda>x. [])\<rparr>
              (initialState\<lparr>N := Some (Fin 2), IY := Some (Fin 120), PV := Some (Fin 210),
                 PMT := Some (Fin (- 121)), mode := ''amort''\<rparr>) = Some s'
          \<and> amortP1 s' = 2 \<and> amortP2 s' = 2)
   \<and> (\<forall>h. amortResults (calculateAmort h (initialState\<lparr>N := Some (Fin 10),
              IY := Some (Fin 120), PV := Some (Fin 1000), PMT := Some (Fin (- 100)),
              amortP1 := 5, amortP2 := 3\<rparr>))
          = Some \<lparr>principal = Fin 0, interest = Fin 0,
                  balance = spec_balance False (Fin (1 / 10)) (Fin (- 100)) (Fin 1000) 3\<rparr>)"
proof -
  let ?h7 = "\<lparr>formatNumber = (\<lambda>x. []), parseFloat = (\<lambda>str. Fin 7), numToString = (\<lambda>x. [])\<rparr>"
  let ?h2 = "\<lparr>formatNumber = (\<lambda>x. []), parseFloat = (\<lambda>str. Fin 2), numToString = (\<lambda>x. [])\<rparr>"
  let ?s = "initialState\<lparr>N := Some (Fin 2), IY := Some (Fin 120), PV := Some (Fin 210),
          PMT := Some (Fin (- 121)), mode := ''amort''\<rparr>"
  let ?r = "initialState\<lparr>N := Some (Fin 10), IY := Some (Fin 120), PV := Some (Fin 1000),
          PMT := Some (Fin (- 100)), amortP1 := 5, amortP2 := 3\<rparr>"
  have a: "mode ?s = ''amort''
      \<and> \<not> (jge (floor_js (getEntryValue ?h7 ?s)) (Fin 1)
             \<and> jle (floor_js (getEntryValue ?h7 ?s)) (floor_js (num (N ?s))))"
    by (simp add: getEntryValue_def jge_def)
  have b: "mode ?s = ''amort'' \<and> floor_js (getEntryValue ?h2 ?s) = Fin 2 \<and> (1::real) \<le> 2
        \<and> jle (Fin 2) (floor_js (num (N ?s)))"
    by (simp add: getEntryValue_def)
  have c: "N ?r = Some (Fin 10) \<and> IY ?r = Some (Fin 120) \<and> PV ?r = Some (Fin 1000)
        \<and> PMT ?r = Some (Fin (- 100)) \<and> 1 \<le> amortP1 ?r \<and> amortP2 ?r < amortP1 ?r"
    by simp
  have st: "BGN ?r = False" "CY ?r = Fin 12" "PY ?r = Fin 12" "nat (amortP2 ?r) = 3"
    by (simp_all add: initialState_def)
  from amortization_range_validation [where s = ?s and h = ?h7] a
  have one: "setAmortPeriod ?h7 ?s
     = Some ((showMessage (''Period must be 1 to '' @ numToString ?h7 (floor_js (num (N ?s))))
                ''error'' ?s)\<lparr>isNewEntry := True\<rparr>)"
    by blast
  from amortization_range_validation [where s = ?s and h = ?h2 and v = 2] b
  have two: "\<exists>s'. setAmortPeriod ?h2 ?s = Some s' \<and> amortP1 s' = 2 \<and> amortP2 s' = 2"
    by simp
  have three: "amortResults (calculateAmort h ?r)
          = Some \<lparr>principal = Fin 0, interest = Fin 0,
                  balance = spec_balance False (Fin (1 / 10)) (Fin (- 100)) (Fin 1000) 3\<rparr>"
    for h
    using amortization_range_validation [where s = ?r and h = h and n = "Fin 10"
        and iy = "Fin 120" and pv = "Fin 1000" and pmt = "Fin (- 100)"] c
    by (simp only: st rate10)
  from one have one': "setAmortPeriod ?h7 ?s
     = Some (?s\<lparr>message := Some (''Period must be 1 to '', ''error''), isNewEntry := True\<rparr>)"
    by (simp add: showMessage_def)
  from one' two three show ?thesis
    by blast
qed

section \<open>The solved PV as a function of the rate\<close>







text \<open>
  With the signs of a loan it still fails for payments at the beginning of a period
  that is not complete: for half a period and a payment of -1 the solved PV is 11/21 at
  21 percent and 6/11 at 44 percent, which is more.
\<close>

lemma half_powers:
  "(121 / 100 :: real) powr (1 / 2) = 11 / 10" "(36 / 25 :: real) powr (1 / 2) = 6 / 5"
proof -
  have "sqrt (121 / 100) = 11 / 10" by (rule real_sqrt_unique) (simp_all add: power2_eq_square)
  then show "(121 / 100 :: real) powr (1 / 2) = 11 / 10" by (simp add: powr_half_sqrt)
  have "sqrt (36 / 25) = 6 / 5" by (rule real_sqrt_unique) (simp_all add: power2_eq_square)
  then show "(36 / 25 :: real) powr (1 / 2) = 6 / 5" by (simp add: powr_half_sqrt)
qed

lemma solvePV_half_period_begin_mode:
  "solvePV (Fin (1 / 2)) (Fin (21 / 100)) (Fin (- 1)) (Fin 0) True = Fin (11 / 21)
   \<and> solvePV (Fin (1 / 2)) (Fin (11 / 25)) (Fin (- 1)) (Fin 0) True = Fin (6 / 11)"
  by (simp add: solvePV_def annuityFactor_def jsub_def half_powers)



section \<open>Solving a register back\<close>






text \<open>
  The equation does not always determine the register that is solved for.  An
  interest-only loan (100 at 100 percent a period, payments of 100, 100 still owed at
  the end) satisfies it for one period and for two; the amounts 100, -450, 900 over two
  periods satisfy it at the rates 50 percent and 200 percent.  A solver does not see
  the register that was blanked, so it returns one value for both sets of registers.
\<close>

lemma tvm_equation_does_not_determine_N_or_rate:
  "solveIY_f (Fin 1) (Fin 100) (Fin (- 100)) (Fin (- 100)) False (Fin 1) = Fin 0
   \<and> solveIY_f (Fin 2) (Fin 100) (Fin (- 100)) (Fin (- 100)) False (Fin 1) = Fin 0
   \<and> solveIY_f (Fin 2) (Fin 100) (Fin (- 450)) (Fin 900) False (Fin (1 / 2)) = Fin 0
   \<and> solveIY_f (Fin 2) (Fin 100) (Fin (- 450)) (Fin 900) False (Fin 2) = Fin 0"
  by (simp add: solveIY_f_def annuityFactor_def jsub_def power2_eq_square)



end
